theory Spec2Isabelle
  imports Complex_Main "HOL-Library.Sublist" "HOL-Library.Word"
begin

section \<open>JavaScript values\<close>

text \<open>
  A JavaScript string is the list of its UTF-16 code units, each a 16-bit word. The
  Chinese literals of
  \<^verbatim>\<open>api_server.js\<close> are written as lists of code units in
  hexadecimal, ASCII literals through \<open>ascii\<close>.
\<close>

type_synonym jsstring = "16 word list"

definition ascii :: "string \<Rightarrow> jsstring" where
  "ascii s = map of_char s"

text \<open>
  The values that reach the handlers: what \<^verbatim>\<open>JSON.parse\<close> can build, and
  \<^verbatim>\<open>undefined\<close> for an absent property. A number is the exact value of
  its decimal literal (the rounding to a double is not modelled). An object is the list of
  its own properties in the order they were written; a later duplicate of a key wins.
\<close>

datatype jsval =
    JUndefined
  | JNull
  | JBool bool
  | JNum rat
  | JStr jsstring
  | JArr "jsval list"
  | JObj "(jsstring \<times> jsval) list"

text \<open>
  An exception is a value: every error object carries its message. The message of an
  error the engine raises follows V8's wording; nothing depends on it.
\<close>

datatype js_error =
    TypeError jsstring
  | SyntaxError jsstring
  | Error jsstring

fun message :: "js_error \<Rightarrow> jsstring" where
  "message (TypeError m) = m"
| "message (SyntaxError m) = m"
| "message (Error m) = m"

text \<open>\<^verbatim>\<open>!v\<close>: the falsy values are undefined, null, false, 0 and the empty string.\<close>

fun falsy :: "jsval \<Rightarrow> bool" where
  "falsy JUndefined = True"
| "falsy JNull = True"
| "falsy (JBool b) = (\<not> b)"
| "falsy (JNum n) = (n = 0)"
| "falsy (JStr s) = (s = [])"
| "falsy (JArr xs) = False"
| "falsy (JObj kvs) = False"

text \<open>
  \<^verbatim>\<open>v.k\<close> for the property names the program reads (\<^verbatim>\<open>name\<close>,
  \<^verbatim>\<open>analysis\<close>, \<^verbatim>\<open>content\<close>, \<^verbatim>\<open>length\<close>), none of which is
  inherited from a prototype: reading a property of undefined or null throws, an own
  property of an object is looked up, \<^verbatim>\<open>length\<close> of a string or an array is its
  length, and everything else is undefined.
\<close>

fun get_prop :: "jsval \<Rightarrow> jsstring \<Rightarrow> js_error + jsval" where
  "get_prop JUndefined k = Inl (TypeError (ascii ''Cannot read properties of undefined''))"
| "get_prop JNull k = Inl (TypeError (ascii ''Cannot read properties of null''))"
| "get_prop (JObj kvs) k =
     Inr (case map_of (rev kvs) k of Some v \<Rightarrow> v | None \<Rightarrow> JUndefined)"
| "get_prop (JStr s) k =
     Inr (if k = ascii ''length'' then JNum (of_nat (length s)) else JUndefined)"
| "get_prop (JArr xs) k =
     Inr (if k = ascii ''length'' then JNum (of_nat (length xs)) else JUndefined)"
| "get_prop (JBool b) k = Inr JUndefined"
| "get_prop (JNum n) k = Inr JUndefined"

section \<open>Strings\<close>

text \<open>
  \<^verbatim>\<open>String.prototype.toLowerCase\<close> on the ASCII letters; every other code unit is
  kept. The Unicode case tables of the runtime are not modelled: no code unit outside
  \<open>A\<close> to \<open>Z\<close> has a lower-case image that contains a code unit of the four
  keywords below, so the classification does not depend on them.
\<close>

definition toLowerCase :: "jsstring \<Rightarrow> jsstring" where
  "toLowerCase s = map (\<lambda>c. if 65 \<le> c \<and> c \<le> 90 then c + 32 else c) s"

text \<open>\<^verbatim>\<open>s.includes(p)\<close>: \<open>p\<close> occurs in \<open>s\<close> at some position.\<close>

fun str_includes :: "jsstring \<Rightarrow> jsstring \<Rightarrow> bool" where
  "str_includes [] p = (p = [])"
| "str_includes (c # cs) p = (take (length p) (c # cs) = p \<or> str_includes cs p)"

text \<open>\<^verbatim>\<open>String(i)\<close> for an integer \<open>i\<close> (below \<open>10^21\<close> in absolute value).\<close>

fun digits :: "nat \<Rightarrow> jsstring" where
  "digits n =
     (if n < 10 then [48 + of_nat n] else digits (n div 10) @ [48 + of_nat (n mod 10)])"

declare digits.simps [simp del]

definition toString :: "int \<Rightarrow> jsstring" where
  "toString i = (if i < 0 then 45 # digits (nat (- i)) else digits (nat i))"

section \<open>Domain classification\<close>

text \<open>
  \<^verbatim>\<open>file.name.toLowerCase()\<close>: throws a TypeError when \<open>file\<close> is null or
  undefined, and when its \<^verbatim>\<open>name\<close> is absent or not a string.
\<close>

definition name_toLowerCase :: "jsval \<Rightarrow> js_error + jsstring" where
  "name_toLowerCase file =
     (case get_prop file (ascii ''name'') of
        Inl e \<Rightarrow> Inl e
      | Inr (JStr s) \<Rightarrow> Inr (toLowerCase s)
      | Inr JUndefined \<Rightarrow> Inl (TypeError (ascii ''Cannot read properties of undefined''))
      | Inr JNull \<Rightarrow> Inl (TypeError (ascii ''Cannot read properties of null''))
      | Inr _ \<Rightarrow> Inl (TypeError (ascii ''file.name.toLowerCase is not a function'')))"

text \<open>
  The keywords: \<^verbatim>\<open>math\<close>, and the Chinese words for mathematics (U+6570 U+5B66),
  algebra (U+4EE3 U+6570) and geometry (U+51E0 U+4F55).
\<close>

definition math_keywords :: "jsstring list" where
  "math_keywords =
     [ascii ''math'', [0x6570, 0x5B66], [0x4EE3, 0x6570], [0x51E0, 0x4F55]]"

text \<open>
  The callback of \<^verbatim>\<open>files.some\<close>: four disjuncts, each lower-casing the name
  again; the first one throws when any does.
\<close>

definition is_math_file :: "jsval \<Rightarrow> js_error + bool" where
  "is_math_file file =
     (case name_toLowerCase file of
        Inl e \<Rightarrow> Inl e
      | Inr s \<Rightarrow>
          Inr (str_includes s (ascii ''math'') \<or> str_includes s [0x6570, 0x5B66] \<or>
               str_includes s [0x4EE3, 0x6570] \<or> str_includes s [0x51E0, 0x4F55]))"

text \<open>
  \<^verbatim>\<open>Array.prototype.some\<close>: the elements in order, stopping at the first one the
  callback accepts; an exception of the callback leaves the loop.
\<close>

fun some_math :: "jsval list \<Rightarrow> js_error + bool" where
  "some_math [] = Inr False"
| "some_math (file # files) =
     (case is_math_file file of
        Inl e \<Rightarrow> Inl e
      | Inr True \<Rightarrow> Inr True
      | Inr False \<Rightarrow> some_math files)"

text \<open>
  \<^verbatim>\<open>const isMathContent = files.some(...)\<close> (lines 383-388 and 476-481): only an
  array has \<^verbatim>\<open>some\<close>.
\<close>

definition isMathContent :: "jsval \<Rightarrow> js_error + bool" where
  "isMathContent files =
     (case files of
        JArr fs \<Rightarrow> some_math fs
      | JUndefined \<Rightarrow> Inl (TypeError (ascii ''Cannot read properties of undefined''))
      | JNull \<Rightarrow> Inl (TypeError (ascii ''Cannot read properties of null''))
      | _ \<Rightarrow> Inl (TypeError (ascii ''files.some is not a function'')))"

section \<open>The fallback study plan\<close>

record schedule_item =
  time :: jsstring
  activity :: jsstring
  details :: jsstring

record daily_plan =
  day :: int
  title :: jsstring
  objectives :: "jsstring list"
  schedule :: "schedule_item list"
  key_points :: "jsstring list"
  difficulty :: jsstring

record study_plan =
  plan_title :: jsstring
  total_days :: int
  daily_plans :: "daily_plan list"

text \<open>The difficulty labels: easy, medium, hard.\<close>

definition easy :: jsstring where "easy = [0x7B80, 0x5355]"
definition medium :: jsstring where "medium = [0x4E2D, 0x7B49]"
definition hard :: jsstring where "hard = [0x56F0, 0x96BE]"

text \<open>The subject labels: mathematics, computer fundamentals.\<close>

definition subject_of :: "bool \<Rightarrow> jsstring" where
  "subject_of isMath =
     (if isMath then [0x6570, 0x5B66] else [0x8BA1, 0x7B97, 0x673A, 0x57FA, 0x7840])"

text \<open>The five fixed slots of a day (lines 495-501).\<close>

definition day_schedule :: "jsstring \<Rightarrow> schedule_item list" where
  "day_schedule subject =
     [\<lparr>time = ascii ''9:00-10:30'',
       activity = [0x77E5, 0x8BC6, 0x70B9, 0x5B66, 0x4E60],
       details = [0x5B66, 0x4E60] @ subject @
         [0x76F8, 0x5173, 0x77E5, 0x8BC6, 0x70B9, 0xFF0C, 0x91CD, 0x70B9, 0x5173, 0x6CE8,
          0x57FA, 0x672C, 0x6982, 0x5FF5, 0x548C, 0x539F, 0x7406]\<rparr>,
      \<lparr>time = ascii ''10:45-12:00'',
       activity = [0x4F8B, 0x9898, 0x5206, 0x6790],
       details = [0x5206, 0x6790, 0x5178, 0x578B, 0x4F8B, 0x9898, 0xFF0C, 0x7406, 0x89E3,
          0x89E3, 0x9898, 0x601D, 0x8DEF]\<rparr>,
      \<lparr>time = ascii ''14:00-15:30'',
       activity = [0x4E60, 0x9898, 0x7EC3, 0x4E60],
       details = [0x5B8C, 0x6210, 0x76F8, 0x5173, 0x4E60, 0x9898, 0xFF0C, 0x5DE9, 0x56FA,
          0x77E5, 0x8BC6, 0x70B9]\<rparr>,
      \<lparr>time = ascii ''15:45-17:00'',
       activity = [0x9519, 0x9898, 0x6574, 0x7406],
       details = [0x6574, 0x7406, 0x9519, 0x9898, 0xFF0C, 0x5206, 0x6790, 0x9519, 0x8BEF,
          0x539F, 0x56E0]\<rparr>,
      \<lparr>time = ascii ''19:00-20:30'',
       activity = [0x77E5, 0x8BC6, 0x70B9, 0x56DE, 0x987E],
       details = [0x56DE, 0x987E, 0x5F53, 0x5929, 0x5B66, 0x4E60, 0x5185, 0x5BB9, 0xFF0C,
          0x5F3A, 0x5316, 0x8BB0, 0x5FC6]\<rparr>]"

text \<open>
  The object pushed in iteration \<open>i\<close> of the loop (lines 487-508). The first day is
  framed as basics, the day equal to \<open>reviewDays\<close> as comprehensive, every other day
  as key content.
\<close>

definition daily :: "jsstring \<Rightarrow> int \<Rightarrow> int \<Rightarrow> daily_plan" where
  "daily subject reviewDays i =
     \<lparr>day = i,
      title = [0x7B2C] @ toString i @ [0x5929, 0xFF1A] @ subject @
        (if i = 1 then [0x57FA, 0x7840, 0x77E5, 0x8BC6]
         else if i = reviewDays then [0x7EFC, 0x5408, 0x590D, 0x4E60]
         else [0x91CD, 0x70B9, 0x5185, 0x5BB9]) @ [0x590D, 0x4E60],
      objectives =
        [[0x638C, 0x63E1] @ subject @
           (if i = 1 then [0x57FA, 0x7840, 0x77E5, 0x8BC6]
            else if i = reviewDays then [0x7EFC, 0x5408, 0x5E94, 0x7528]
            else [0x6838, 0x5FC3, 0x6982, 0x5FF5]),
         [0x5B8C, 0x6210, 0x76F8, 0x5173, 0x7EC3, 0x4E60, 0x9898, 0x76EE],
         [0x6574, 0x7406, 0x77E5, 0x8BC6, 0x70B9, 0x7B14, 0x8BB0]],
      schedule = day_schedule subject,
      key_points =
        [subject @
           (if i = 1 then [0x57FA, 0x7840, 0x77E5, 0x8BC6]
            else if i = reviewDays then [0x7EFC, 0x5408, 0x5E94, 0x7528]
            else [0x6838, 0x5FC3, 0x6982, 0x5FF5]),
         [0x89E3, 0x9898, 0x6280, 0x5DE7, 0x548C, 0x65B9, 0x6CD5],
         [0x5E38, 0x89C1, 0x9519, 0x8BEF, 0x5206, 0x6790]],
      difficulty = (if i = 1 then easy else if i = reviewDays then hard else medium)\<rparr>"

text \<open>
  \<^verbatim>\<open>for (let i = 1; i <= reviewDays; i++) dailyPlans.push(...)\<close>, entered with
  \<open>i = 1\<close> and the empty list.
\<close>

function dailyPlans_loop ::
  "jsstring \<Rightarrow> int \<Rightarrow> int \<Rightarrow> daily_plan list \<Rightarrow> daily_plan list" where
  "dailyPlans_loop subject reviewDays i dailyPlans =
     (if i \<le> reviewDays
      then dailyPlans_loop subject reviewDays (i + 1) (dailyPlans @ [daily subject reviewDays i])
      else dailyPlans)"
  by pat_completeness auto
termination
  by (relation "measure (\<lambda>(subject, reviewDays, i, dailyPlans). nat (reviewDays + 1 - i))") auto

declare dailyPlans_loop.simps [simp del]

text \<open>
  \<^verbatim>\<open>generateFallbackStudyPlan(files, targetScore, reviewDays)\<close> (lines 475-516).
  \<open>targetScore\<close> is not read. \<open>reviewDays\<close> is an integer, as the interface
  declares it.
\<close>

definition generateFallbackStudyPlan :: "jsval \<Rightarrow> jsval \<Rightarrow> int \<Rightarrow> js_error + study_plan" where
  "generateFallbackStudyPlan files targetScore reviewDays =
     (case isMathContent files of
        Inl e \<Rightarrow> Inl e
      | Inr isMath \<Rightarrow>
          Inr \<lparr>plan_title = subject_of isMath @
                 [0x4E2A, 0x6027, 0x5316, 0x590D, 0x4E60, 0x8BA1, 0x5212],
               total_days = reviewDays,
               daily_plans = dailyPlans_loop (subject_of isMath) reviewDays 1 []\<rparr>)"

section \<open>The fallback test paper\<close>

text \<open>
  A question object. The fields are the keys of the source: \<open>qid\<close> is \<^verbatim>\<open>id\<close>,
  \<open>qtype\<close> is \<^verbatim>\<open>type\<close>, \<open>qtext\<close> is \<^verbatim>\<open>question\<close> and
  \<open>qdifficulty\<close> is \<^verbatim>\<open>difficulty\<close>. An object written without the key
  \<^verbatim>\<open>options\<close> has \<open>options = None\<close>.
\<close>

record question =
  qid :: int
  qtype :: jsstring
  qtext :: jsstring
  options :: "jsstring list option"
  correct_answer :: jsstring
  explanation :: jsstring
  qdifficulty :: jsstring
  knowledge_points :: "jsstring list"

record paper_analysis =
  total_questions :: int
  difficulty_distribution :: "(jsstring \<times> rat) list"
  knowledge_coverage :: "jsstring list"

record test_paper =
  paper_title :: jsstring
  questions :: "question list"
  analysis :: paper_analysis

text \<open>The paper of the mathematics domain (lines 391-430).\<close>

definition math_question1 :: question where
  "math_question1 =
     \<lparr>qid = 1,
      qtype = ascii ''single_choice'',
      qtext = [0x82E5, 0x51FD, 0x6570] @ ascii '' f(x) = x'' @ [0x00B2] @ ascii '' - 3x + 2''
          @ [0xFF0C, 0x5219] @ ascii '' f(2) '' @ [0x7684, 0x503C, 0x4E3A, 0xFF1A],
      options = Some
        [ascii ''A. 0'',
         ascii ''B. 1'',
         ascii ''C. 2'',
         ascii ''D. 3''],
      correct_answer = ascii ''A'',
      explanation = [0x5C06] @ ascii '' x=2 '' @ [0x4EE3, 0x5165, 0x51FD, 0x6570]
          @ ascii '' f(x) = x'' @ [0x00B2] @ ascii '' - 3x + 2'' @ [0xFF0C, 0x5F97]
          @ ascii '' f(2) = 2'' @ [0x00B2] @ ascii '' - 3'' @ [0x00D7]
          @ ascii ''2 + 2 = 4 - 6 + 2 = 0'' @ [0x3002],
      qdifficulty = easy,
      knowledge_points =
        [[0x51FD, 0x6570, 0x6C42, 0x503C],
         [0x4EE3, 0x6570, 0x8FD0, 0x7B97]]\<rparr>"

definition math_question2 :: question where
  "math_question2 =
     \<lparr>qid = 2,
      qtype = ascii ''multiple_choice'',
      qtext = [0x4EE5, 0x4E0B, 0x54EA, 0x4E9B, 0x662F, 0x4E8C, 0x6B21, 0x51FD, 0x6570, 0x7684,
          0x6027, 0x8D28, 0xFF1F],
      options = Some
        [ascii ''A. '' @ [0x56FE, 0x50CF, 0x662F, 0x629B, 0x7269, 0x7EBF],
         ascii ''B. '' @ [0x6700, 0x9AD8, 0x6B21, 0x6570, 0x4E3A] @ ascii ''2'',
         ascii ''C. '' @ [0x4E00, 0x5B9A, 0x6709, 0x4E24, 0x4E2A, 0x5B9E, 0x6839],
         ascii ''D. '' @ [0x5173, 0x4E8E, 0x5BF9, 0x79F0, 0x8F74, 0x5BF9, 0x79F0]],
      correct_answer = ascii ''A, B, D'',
      explanation = [0x4E8C, 0x6B21, 0x51FD, 0x6570, 0x7684, 0x56FE, 0x50CF, 0x662F, 0x629B,
          0x7269, 0x7EBF, 0xFF0C, 0x6700, 0x9AD8, 0x6B21, 0x6570, 0x4E3A] @ ascii ''2''
          @ [0xFF0C, 0x5173, 0x4E8E, 0x5BF9, 0x79F0, 0x8F74, 0x5BF9, 0x79F0, 0xFF0C, 0x4F46,
          0x4E0D, 0x4E00, 0x5B9A, 0x6709, 0x4E24, 0x4E2A, 0x5B9E, 0x6839, 0xFF08, 0x5F53,
          0x5224, 0x522B, 0x5F0F, 0x5C0F, 0x4E8E] @ ascii ''0'' @ [0x65F6, 0x65E0, 0x5B9E,
          0x6839, 0xFF09, 0x3002],
      qdifficulty = medium,
      knowledge_points =
        [[0x4E8C, 0x6B21, 0x51FD, 0x6570],
         [0x51FD, 0x6570, 0x6027, 0x8D28]]\<rparr>"

definition math_question3 :: question where
  "math_question3 =
     \<lparr>qid = 3,
      qtype = ascii ''judgment'',
      qtext = [0x03C0] @ ascii '' '' @ [0x662F, 0x6709, 0x7406, 0x6570, 0x3002],
      options = Some
        [[0x6B63, 0x786E],
         [0x9519, 0x8BEF]],
      correct_answer = [0x9519, 0x8BEF],
      explanation = [0x03C0] @ ascii '' '' @ [0x662F, 0x65E0, 0x7406, 0x6570, 0xFF0C, 0x4E0D,
          0x80FD, 0x8868, 0x793A, 0x4E3A, 0x4E24, 0x4E2A, 0x6574, 0x6570, 0x7684, 0x6BD4,
          0x503C, 0x3002],
      qdifficulty = easy,
      knowledge_points =
        [[0x65E0, 0x7406, 0x6570],
         [0x5B9E, 0x6570, 0x5206, 0x7C7B]]\<rparr>"

definition math_paper :: test_paper where
  "math_paper =
     \<lparr>paper_title = [0x6570, 0x5B66, 0x6A21, 0x62DF, 0x6D4B, 0x8BD5, 0x5377, 0xFF08,
         0x5907, 0x7528, 0x65B9, 0x6848, 0xFF09],
      questions = [math_question1, math_question2, math_question3],
      analysis =
        \<lparr>total_questions = 3,
         difficulty_distribution = [(easy, 67 / 100), (medium, 33 / 100), (hard, 0)],
         knowledge_coverage =
           [[0x51FD, 0x6570, 0x6C42, 0x503C],
            [0x4EE3, 0x6570, 0x8FD0, 0x7B97],
            [0x4E8C, 0x6B21, 0x51FD, 0x6570],
            [0x51FD, 0x6570, 0x6027, 0x8D28],
            [0x65E0, 0x7406, 0x6570],
            [0x5B9E, 0x6570, 0x5206, 0x7C7B]]\<rparr>\<rparr>"

text \<open>The paper of the general domain (lines 432-470).\<close>

definition general_question1 :: question where
  "general_question1 =
     \<lparr>qid = 1,
      qtype = ascii ''single_choice'',
      qtext = [0x4EE5, 0x4E0B, 0x5173, 0x4E8E, 0x8BA1, 0x7B97, 0x673A, 0x7F51, 0x7EDC, 0x7684,
          0x8BF4, 0x6CD5, 0xFF0C, 0x6B63, 0x786E, 0x7684, 0x662F, 0xFF1A],
      options = Some
        [ascii ''A. '' @ [0x8BA1, 0x7B97, 0x673A, 0x7F51, 0x7EDC, 0x53EA, 0x80FD, 0x7528,
            0x4E8E, 0x4F20, 0x9012, 0x6570, 0x636E],
         ascii ''B. '' @ [0x8BA1, 0x7B97, 0x673A, 0x7F51, 0x7EDC, 0x7531, 0x786C, 0x4EF6,
             0x548C, 0x8F6F, 0x4EF6, 0x7EC4, 0x6210],
         ascii ''C. '' @ [0x8BA1, 0x7B97, 0x673A, 0x7F51, 0x7EDC, 0x4E0D, 0x9700, 0x8981,
             0x534F, 0x8BAE],
         ascii ''D. '' @ [0x8BA1, 0x7B97, 0x673A, 0x7F51, 0x7EDC, 0x53EA, 0x80FD, 0x5728,
             0x5C40, 0x57DF, 0x7F51, 0x4E2D, 0x4F7F, 0x7528]],
      correct_answer = ascii ''B'',
      explanation = [0x8BA1, 0x7B97, 0x673A, 0x7F51, 0x7EDC, 0x662F, 0x7531, 0x786C, 0x4EF6,
          0x8BBE, 0x5907, 0x548C, 0x8F6F, 0x4EF6, 0x7CFB, 0x7EDF, 0x7EC4, 0x6210, 0x7684,
          0xFF0C, 0x7528, 0x4E8E, 0x5B9E, 0x73B0, 0x8BA1, 0x7B97, 0x673A, 0x4E4B, 0x95F4,
          0x7684, 0x901A, 0x4FE1, 0x548C, 0x8D44, 0x6E90, 0x5171, 0x4EAB, 0x3002],
      qdifficulty = easy,
      knowledge_points =
        [[0x8BA1, 0x7B97, 0x673A, 0x7F51, 0x7EDC],
         [0x7F51, 0x7EDC, 0x7EC4, 0x6210]]\<rparr>"

definition general_question2 :: question where
  "general_question2 =
     \<lparr>qid = 2,
      qtype = ascii ''multiple_choice'',
      qtext = [0x4EE5, 0x4E0B, 0x5C5E, 0x4E8E, 0x64CD, 0x4F5C, 0x7CFB, 0x7EDF, 0x7684, 0x662F,
          0xFF1A],
      options = Some
        [ascii ''A. Windows'',
         ascii ''B. Linux'',
         ascii ''C. Office'',
         ascii ''D. macOS''],
      correct_answer = ascii ''A, B, D'',
      explanation = ascii ''Windows'' @ [0x3001] @ ascii ''Linux'' @ [0x548C]
          @ ascii ''macOS'' @ [0x90FD, 0x662F, 0x64CD, 0x4F5C, 0x7CFB, 0x7EDF, 0xFF0C,
          0x800C] @ ascii ''Office'' @ [0x662F, 0x529E, 0x516C, 0x8F6F, 0x4EF6, 0x3002],
      qdifficulty = easy,
      knowledge_points =
        [[0x64CD, 0x4F5C, 0x7CFB, 0x7EDF],
         [0x8F6F, 0x4EF6, 0x5206, 0x7C7B]]\<rparr>"

definition general_question3 :: question where
  "general_question3 =
     \<lparr>qid = 3,
      qtype = ascii ''essay'',
      qtext = [0x8BF7, 0x7B80, 0x8FF0, 0x8BA1, 0x7B97, 0x673A, 0x75C5, 0x6BD2, 0x7684, 0x7279,
          0x70B9, 0x548C, 0x9884, 0x9632, 0x63AA, 0x65BD, 0x3002],
      options = None,
      correct_answer = [0x8BA1, 0x7B97, 0x673A, 0x75C5, 0x6BD2, 0x7684, 0x7279, 0x70B9, 0x5305,
          0x62EC, 0xFF1A, 0x4F20, 0x67D3, 0x6027, 0x3001, 0x6F5C, 0x4F0F, 0x6027, 0x3001,
          0x7834, 0x574F, 0x6027, 0x3001, 0x9690, 0x853D, 0x6027, 0x7B49, 0x3002, 0x9884,
          0x9632, 0x63AA, 0x65BD, 0x5305, 0x62EC, 0xFF1A, 0x5B89, 0x88C5, 0x6740, 0x6BD2,
          0x8F6F, 0x4EF6, 0x3001, 0x5B9A, 0x671F, 0x66F4, 0x65B0, 0x7CFB, 0x7EDF, 0x3001,
          0x4E0D, 0x968F, 0x610F, 0x6253, 0x5F00, 0x964C, 0x751F, 0x90AE, 0x4EF6, 0x9644,
          0x4EF6, 0x3001, 0x4F7F, 0x7528, 0x5B89, 0x5168, 0x7684, 0x7F51, 0x7EDC, 0x73AF,
          0x5883, 0x7B49, 0x3002],
      explanation = [0x672C, 0x9898, 0x4E3B, 0x8981, 0x8003, 0x5BDF, 0x5BF9, 0x8BA1, 0x7B97,
          0x673A, 0x75C5, 0x6BD2, 0x57FA, 0x672C, 0x6982, 0x5FF5, 0x7684, 0x7406, 0x89E3,
          0x548C, 0x9884, 0x9632, 0x610F, 0x8BC6, 0x3002],
      qdifficulty = medium,
      knowledge_points =
        [[0x8BA1, 0x7B97, 0x673A, 0x5B89, 0x5168],
         [0x75C5, 0x6BD2, 0x9632, 0x62A4]]\<rparr>"

definition general_paper :: test_paper where
  "general_paper =
     \<lparr>paper_title = [0x6A21, 0x62DF, 0x6D4B, 0x8BD5, 0x5377, 0xFF08, 0x5907, 0x7528,
         0x65B9, 0x6848, 0xFF09],
      questions = [general_question1, general_question2, general_question3],
      analysis =
        \<lparr>total_questions = 3,
         difficulty_distribution = [(easy, 67 / 100), (medium, 33 / 100), (hard, 0)],
         knowledge_coverage =
           [[0x8BA1, 0x7B97, 0x673A, 0x7F51, 0x7EDC],
            [0x7F51, 0x7EDC, 0x7EC4, 0x6210],
            [0x64CD, 0x4F5C, 0x7CFB, 0x7EDF],
            [0x8F6F, 0x4EF6, 0x5206, 0x7C7B],
            [0x8BA1, 0x7B97, 0x673A, 0x5B89, 0x5168],
            [0x75C5, 0x6BD2, 0x9632, 0x62A4]]\<rparr>\<rparr>"

text \<open>
  \<^verbatim>\<open>generateFallbackTestPaper(files, targetScore, questionCount, questionType)\<close>
  (lines 382-472). Only \<open>files\<close> is read.
\<close>

definition generateFallbackTestPaper ::
  "jsval \<Rightarrow> jsval \<Rightarrow> jsval \<Rightarrow> jsval \<Rightarrow> js_error + test_paper" where
  "generateFallbackTestPaper files targetScore questionCount questionType =
     (case isMathContent files of
        Inl e \<Rightarrow> Inl e
      | Inr isMath \<Rightarrow> Inr (if isMath then math_paper else general_paper))"

section \<open>\<^verbatim>\<open>JSON.parse\<close>\<close>

text \<open>
  The JSON grammar of ECMA-404, which \<^verbatim>\<open>JSON.parse\<close> accepts: a lexer from
  code units to tokens, and a pushdown automaton from tokens to a value.
\<close>

datatype token =
    LBrace | RBrace | LBracket | RBracket | Comma | Colon
  | TString jsstring | TNumber rat | TTrue | TFalse | TNull

definition is_digit :: "16 word \<Rightarrow> bool" where
  "is_digit c = (48 \<le> c \<and> c \<le> 57)"

definition hex_digit :: "16 word \<Rightarrow> 16 word option" where
  "hex_digit c =
     (if 48 \<le> c \<and> c \<le> 57 then Some (c - 48)
      else if 65 \<le> c \<and> c \<le> 70 then Some (c - 55)
      else if 97 \<le> c \<and> c \<le> 102 then Some (c - 87)
      else None)"

text \<open>The code unit an escape stands for: the character after the backslash.\<close>

definition escape :: "16 word \<Rightarrow> 16 word option" where
  "escape e =
     (if e = 34 \<or> e = 92 \<or> e = 47 then Some e
      else if e = 98 then Some 8
      else if e = 102 then Some 12
      else if e = 110 then Some 10
      else if e = 114 then Some 13
      else if e = 116 then Some 9
      else None)"

text \<open>
  A string, read after its opening quote: the code units it denotes and the number of
  code units read, the closing quote included. A control character, an unknown escape and
  a missing closing quote are syntax errors.
\<close>

fun lex_string :: "jsstring \<Rightarrow> nat \<Rightarrow> jsstring \<Rightarrow> (jsstring \<times> nat) option" where
  "lex_string acc n [] = None"
| "lex_string acc n (c # cs) =
     (if c = 34 then Some (acc, n + 1)
      else if c = 92 then
        (case cs of
           [] \<Rightarrow> None
         | e # cs' \<Rightarrow>
             if e = 117 then
               (case cs' of
                  h1 # h2 # h3 # h4 # cs'' \<Rightarrow>
                    (case (hex_digit h1, hex_digit h2, hex_digit h3, hex_digit h4) of
                       (Some a, Some b, Some c, Some d) \<Rightarrow>
                         lex_string (acc @ [((a * 16 + b) * 16 + c) * 16 + d]) (n + 6) cs''
                     | _ \<Rightarrow> None)
                | _ \<Rightarrow> None)
             else
               (case escape e of
                  Some u \<Rightarrow> lex_string (acc @ [u]) (n + 2) cs'
                | None \<Rightarrow> None))
      else if c < 32 then None
      else lex_string (acc @ [c]) (n + 1) cs)"

definition digits_value :: "jsstring \<Rightarrow> int" where
  "digits_value ds = foldl (\<lambda>n c. 10 * n + uint (c - 48)) 0 ds"

text \<open>
  A number: an optional minus, an integer part without a leading zero, an optional
  fraction and an optional exponent. The result is its value and the number of code units
  read.
\<close>

definition lex_number :: "jsstring \<Rightarrow> (rat \<times> nat) option" where
  "lex_number s =
     (let neg = (s \<noteq> [] \<and> hd s = 45);
          s1 = (if neg then tl s else s);
          ip = takeWhile is_digit s1;
          s2 = dropWhile is_digit s1;
          frac = (s2 \<noteq> [] \<and> hd s2 = 46);
          fp = (if frac then takeWhile is_digit (tl s2) else []);
          s3 = (if frac then dropWhile is_digit (tl s2) else s2);
          ex = (s3 \<noteq> [] \<and> (hd s3 = 101 \<or> hd s3 = 69));
          s4 = (if ex then tl s3 else s3);
          eneg = (ex \<and> s4 \<noteq> [] \<and> hd s4 = 45);
          s5 = (if ex \<and> s4 \<noteq> [] \<and> (hd s4 = 43 \<or> hd s4 = 45) then tl s4 else s4);
          ep = (if ex then takeWhile is_digit s5 else []);
          s6 = (if ex then dropWhile is_digit s5 else s3);
          mantissa = rat_of_int (digits_value (ip @ fp)) / 10 ^ length fp;
          scaled = (if eneg then mantissa / 10 ^ nat (digits_value ep)
                    else mantissa * 10 ^ nat (digits_value ep))
      in if ip = [] \<or> (1 < length ip \<and> hd ip = 48) \<or> (frac \<and> fp = []) \<or> (ex \<and> ep = [])
         then None
         else Some (if neg then - scaled else scaled, length s - length s6))"

text \<open>
  The lexer. White space is space, tab, line feed and carriage return. After a string or
  a number of \<open>k\<close> code units, the first of which is \<open>c\<close>, it goes on behind them.
\<close>

function tokenize :: "jsstring \<Rightarrow> token list option" where
  "tokenize [] = Some []"
| "tokenize (c # cs) =
     (if c = 32 \<or> c = 9 \<or> c = 10 \<or> c = 13 then tokenize cs
      else if c = 123 then map_option (Cons LBrace) (tokenize cs)
      else if c = 125 then map_option (Cons RBrace) (tokenize cs)
      else if c = 91 then map_option (Cons LBracket) (tokenize cs)
      else if c = 93 then map_option (Cons RBracket) (tokenize cs)
      else if c = 44 then map_option (Cons Comma) (tokenize cs)
      else if c = 58 then map_option (Cons Colon) (tokenize cs)
      else if c = 34 then
        (case lex_string [] 0 cs of
           None \<Rightarrow> None
         | Some (s, k) \<Rightarrow> map_option (Cons (TString s)) (tokenize (drop k cs)))
      else if c = 45 \<or> is_digit c then
        (case lex_number (c # cs) of
           None \<Rightarrow> None
         | Some (x, k) \<Rightarrow> map_option (Cons (TNumber x)) (tokenize (drop (k - 1) cs)))
      else if take 4 (c # cs) = ascii ''true'' then
        map_option (Cons TTrue) (tokenize (drop 3 cs))
      else if take 5 (c # cs) = ascii ''false'' then
        map_option (Cons TFalse) (tokenize (drop 4 cs))
      else if take 4 (c # cs) = ascii ''null'' then
        map_option (Cons TNull) (tokenize (drop 3 cs))
      else None)"
  by pat_completeness auto
termination
  by (relation "measure length") auto

declare tokenize.simps(2) [simp del]

text \<open>
  The automaton: the stack of the containers that are open, and what may come next. An
  open object is either between members or holds the key whose value is being read.
\<close>

datatype frame =
    InArray "jsval list"
  | InObject "(jsstring \<times> jsval) list"
  | InMember "(jsstring \<times> jsval) list" jsstring

datatype expecting =
    XValue | XValueOrClose | XKey | XKeyOrClose | XColon | XNext | XEnd jsval

type_synonym pstate = "frame list \<times> expecting"

fun finish_value :: "jsval \<Rightarrow> frame list \<Rightarrow> pstate option" where
  "finish_value v [] = Some ([], XEnd v)"
| "finish_value v (InArray vs # st) = Some (InArray (vs @ [v]) # st, XNext)"
| "finish_value v (InMember kvs k # st) = Some (InObject (kvs @ [(k, v)]) # st, XNext)"
| "finish_value v (InObject kvs # st) = None"

fun start_value :: "token \<Rightarrow> frame list \<Rightarrow> pstate option" where
  "start_value (TString s) st = finish_value (JStr s) st"
| "start_value (TNumber x) st = finish_value (JNum x) st"
| "start_value TTrue st = finish_value (JBool True) st"
| "start_value TFalse st = finish_value (JBool False) st"
| "start_value TNull st = finish_value JNull st"
| "start_value LBracket st = Some (InArray [] # st, XValueOrClose)"
| "start_value LBrace st = Some (InObject [] # st, XKeyOrClose)"
| "start_value RBrace st = None"
| "start_value RBracket st = None"
| "start_value Comma st = None"
| "start_value Colon st = None"

fun close_array :: "frame list \<Rightarrow> pstate option" where
  "close_array (InArray vs # st) = finish_value (JArr vs) st"
| "close_array st = None"

fun close_object :: "frame list \<Rightarrow> pstate option" where
  "close_object (InObject kvs # st) = finish_value (JObj kvs) st"
| "close_object st = None"

fun begin_member :: "token \<Rightarrow> frame list \<Rightarrow> pstate option" where
  "begin_member (TString k) (InObject kvs # st) = Some (InMember kvs k # st, XColon)"
| "begin_member tok st = None"

fun after_comma :: "frame list \<Rightarrow> pstate option" where
  "after_comma (InArray vs # st) = Some (InArray vs # st, XValue)"
| "after_comma (InObject kvs # st) = Some (InObject kvs # st, XKey)"
| "after_comma st = None"

fun parse_step :: "pstate \<Rightarrow> token \<Rightarrow> pstate option" where
  "parse_step (st, XValue) tok = start_value tok st"
| "parse_step (st, XValueOrClose) tok =
     (if tok = RBracket then close_array st else start_value tok st)"
| "parse_step (st, XKeyOrClose) tok =
     (if tok = RBrace then close_object st else begin_member tok st)"
| "parse_step (st, XKey) tok = begin_member tok st"
| "parse_step (st, XColon) tok = (if tok = Colon then Some (st, XValue) else None)"
| "parse_step (st, XNext) tok =
     (if tok = Comma then after_comma st
      else if tok = RBracket then close_array st
      else if tok = RBrace then close_object st
      else None)"
| "parse_step (st, XEnd v) tok = None"

fun parse_tokens :: "pstate \<Rightarrow> token list \<Rightarrow> jsval option" where
  "parse_tokens (st, x) [] = (case x of XEnd v \<Rightarrow> Some v | _ \<Rightarrow> None)"
| "parse_tokens s (tok # toks) =
     (case parse_step s tok of None \<Rightarrow> None | Some s' \<Rightarrow> parse_tokens s' toks)"

definition JSON_parse :: "jsstring \<Rightarrow> js_error + jsval" where
  "JSON_parse src =
     (case tokenize src of
        None \<Rightarrow> Inl (SyntaxError (ascii ''Unexpected token''))
      | Some toks \<Rightarrow>
          (case parse_tokens ([], XValue) toks of
             None \<Rightarrow> Inl (SyntaxError (ascii ''Unexpected token''))
           | Some v \<Rightarrow> Inr v))"

section \<open>Interpreting the model's output\<close>

text \<open>
  Where the pattern \<open>p\<close> first occurs in a text: the text before it and the text after
  it.
\<close>

fun split_first :: "jsstring \<Rightarrow> jsstring \<Rightarrow> (jsstring \<times> jsstring) option" where
  "split_first p [] = (if p = [] then Some ([], []) else None)"
| "split_first p (c # cs) =
     (if take (length p) (c # cs) = p then Some ([], drop (length p) (c # cs))
      else map_option (\<lambda>(before, after). (c # before, after)) (split_first p cs))"

text \<open>Three backquotes, \<^verbatim>\<open>json\<close> and a line feed; a line feed and three backquotes.\<close>

definition fence_open :: jsstring where
  "fence_open = [96, 96, 96] @ ascii ''json'' @ [10]"

definition fence_close :: jsstring where
  "fence_close = [10, 96, 96, 96]"

text \<open>
  The first regular expression: the opening fence, the shortest text up to a closing
  fence, the closing fence. The match starts at the first opening fence (when no closing
  fence follows it, none follows a later one) and ends at the first closing fence behind
  it. The result is the match and its group 1, the text between the fences.
\<close>

definition match_fenced :: "jsstring \<Rightarrow> (jsstring \<times> jsstring) option" where
  "match_fenced s =
     (case split_first fence_open s of
        None \<Rightarrow> None
      | Some (before, rest) \<Rightarrow>
          (case split_first fence_close rest of
             None \<Rightarrow> None
           | Some (inner, after) \<Rightarrow> Some (fence_open @ inner @ fence_close, inner)))"

text \<open>
  The second regular expression: an opening brace, the longest text, a closing brace. The
  match runs from the first opening brace to the last closing brace behind it.
\<close>

definition match_braces :: "jsstring \<Rightarrow> jsstring option" where
  "match_braces s =
     (let r = dropWhile (\<lambda>c. c \<noteq> 123) s;
          inner = rev (dropWhile (\<lambda>c. c \<noteq> 125) (rev (tl r)))
      in if r = [] \<or> inner = [] then None else Some (123 # inner))"

definition raw_response :: "jsval \<Rightarrow> jsval" where
  "raw_response response = JObj [(ascii ''raw_response'', response)]"

text \<open>
  \<^verbatim>\<open>response.match(first) || response.match(second)\<close> and then
  \<^verbatim>\<open>jsonMatch[1] || jsonMatch[0]\<close>: the text handed to \<^verbatim>\<open>JSON.parse\<close>,
  if a pattern matches. Group 1 is used unless it is empty or absent, the match otherwise.
\<close>

definition json_candidate :: "jsstring \<Rightarrow> jsstring option" where
  "json_candidate s =
     (case match_fenced s of
        Some (whole, group1) \<Rightarrow> Some (if group1 \<noteq> [] then group1 else whole)
      | None \<Rightarrow> match_braces s)"

text \<open>
  The body of the \<^verbatim>\<open>try\<close> block (lines 308-314 and 370-375, the same text):
  \<^verbatim>\<open>response.match\<close> exists on a string only.
\<close>

definition try_extract :: "jsval \<Rightarrow> js_error + jsval" where
  "try_extract response =
     (case response of
        JStr s \<Rightarrow>
          (case json_candidate s of
             Some candidate \<Rightarrow> JSON_parse candidate
           | None \<Rightarrow> Inr (raw_response response))
      | JUndefined \<Rightarrow> Inl (TypeError (ascii ''Cannot read properties of undefined''))
      | JNull \<Rightarrow> Inl (TypeError (ascii ''Cannot read properties of null''))
      | _ \<Rightarrow> Inl (TypeError (ascii ''response.match is not a function'')))"

text \<open>
  The \<^verbatim>\<open>try\<close> block with its \<^verbatim>\<open>catch\<close> (lines 307-317 and 369-378), the
  step the specification calls \<^verbatim>\<open>extractStructured\<close>.
\<close>

definition extractStructured :: "jsval \<Rightarrow> js_error + jsval" where
  "extractStructured response =
     (case try_extract response of
        Inr v \<Rightarrow> Inr v
      | Inl error \<Rightarrow> Inr (raw_response response))"

section \<open>The inference client\<close>

text \<open>
  The world outside the program: the credential of the environment, what the upstream
  service does with the \<open>k\<close>-th request sent to it, what reading the \<open>k\<close>-th
  uploaded file gives, and the number of requests sent so far. A request fails with the
  message of its error (the network, a status that is not a success, or a reply without
  \<^verbatim>\<open>choices[0].message.content\<close>), or gives that content.
\<close>

datatype http_result = HttpFail jsstring | HttpOk jsval

datatype read_result = ReadFail jsstring | ReadOk jsstring

record world =
  DEEPSEEK_KEY :: "jsstring option"
  upstream :: "nat \<Rightarrow> http_result"
  disk :: "nat \<Rightarrow> read_result"
  requests :: nat

text \<open>
  \<^verbatim>\<open>callDeepSeekAPI(messages, temperature)\<close> (lines 201-229). Without a
  credential (absent or empty) it throws before any request is sent. The text of the
  prompt is not modelled: it is a function of the handler's input, and \<open>upstream\<close>
  ranges over every behaviour of the service.
\<close>

definition callDeepSeekAPI :: "world \<Rightarrow> (js_error + jsval) \<times> world" where
  "callDeepSeekAPI w =
     (if DEEPSEEK_KEY w = None \<or> DEEPSEEK_KEY w = Some []
      then (Inl (Error (ascii ''DeepSeek API'' @ [0x5BC6, 0x94A5, 0x672A, 0x914D, 0x7F6E])), w)
      else
        (case upstream w (requests w) of
           HttpFail m \<Rightarrow> Inl (Error m)
         | HttpOk content \<Rightarrow> Inr content,
         w\<lparr>requests := requests w + 1\<rparr>))"

text \<open>
  \<^verbatim>\<open>${v}\<close> in a template literal converts \<open>v\<close> to a string. The text is
  not modelled, only whether the conversion throws. A primitive value always converts. An
  object converts through its \<^verbatim>\<open>toString\<close>: the one it inherits gives a text,
  but an own property of that name, which in a value built from JSON is never a function,
  leaves only \<^verbatim>\<open>valueOf\<close>, which returns the object itself, and the conversion
  throws a TypeError. An array joins the conversions of its elements, null being the empty
  text.
\<close>

fun cannot_convert :: "jsval \<Rightarrow> bool" where
  "cannot_convert (JObj kvs) = (map_of kvs (ascii ''toString'') \<noteq> None)"
| "cannot_convert (JArr xs) = list_ex cannot_convert xs"
| "cannot_convert JUndefined = False"
| "cannot_convert JNull = False"
| "cannot_convert (JBool b) = False"
| "cannot_convert (JNum x) = False"
| "cannot_convert (JStr s) = False"

definition ToString :: "jsval \<Rightarrow> js_error + unit" where
  "ToString v =
     (if cannot_convert v
      then Inl (TypeError (ascii ''Cannot convert object to primitive value''))
      else Inr ())"

text \<open>One step after another: an exception of the first step leaves the second out.\<close>

definition and_then :: "js_error + 'a \<Rightarrow> ('a \<Rightarrow> js_error + 'b) \<Rightarrow> js_error + 'b" where
  "and_then r f = (case r of Inl e \<Rightarrow> Inl e | Inr x \<Rightarrow> f x)"

text \<open>
  The callback of line 265: the name of the file, and its analysis or, when that is
  falsy, the text for a file that was not analysed (U+672A U+5206 U+6790).
\<close>

definition plan_summary :: "jsval \<Rightarrow> js_error + unit" where
  "plan_summary f =
     and_then (get_prop f (ascii ''name'')) (\<lambda>name.
     and_then (ToString name) (\<lambda>u.
     and_then (get_prop f (ascii ''analysis'')) (\<lambda>a.
     ToString (if falsy a then JStr [0x672A, 0x5206, 0x6790] else a))))"

text \<open>
  The callback of line 323: the name of the file, and its content or, when that is
  falsy, its analysis or, when that is falsy too, the same text.
\<close>

definition paper_summary :: "jsval \<Rightarrow> js_error + unit" where
  "paper_summary f =
     and_then (get_prop f (ascii ''name'')) (\<lambda>name.
     and_then (ToString name) (\<lambda>u.
     and_then (get_prop f (ascii ''content'')) (\<lambda>c.
     if falsy c
     then and_then (get_prop f (ascii ''analysis'')) (\<lambda>a.
            ToString (if falsy a then JStr [0x672A, 0x5206, 0x6790] else a))
     else ToString c)))"

text \<open>
  \<^verbatim>\<open>files.map(callback).join(...)\<close> (lines 264-266 and 322-324): the callback on
  each element in order; only an array has \<^verbatim>\<open>map\<close>.
\<close>

fun map_summaries :: "(jsval \<Rightarrow> js_error + unit) \<Rightarrow> jsval list \<Rightarrow> js_error + unit" where
  "map_summaries callback [] = Inr ()"
| "map_summaries callback (f # fs) =
     and_then (callback f) (\<lambda>u. map_summaries callback fs)"

definition fileSummaries_of :: "(jsval \<Rightarrow> js_error + unit) \<Rightarrow> jsval \<Rightarrow> js_error + unit" where
  "fileSummaries_of callback files =
     (case files of
        JArr fs \<Rightarrow> map_summaries callback fs
      | JUndefined \<Rightarrow> Inl (TypeError (ascii ''Cannot read properties of undefined''))
      | JNull \<Rightarrow> Inl (TypeError (ascii ''Cannot read properties of null''))
      | _ \<Rightarrow> Inl (TypeError (ascii ''files.map is not a function'')))"

text \<open>
  The prompt of the study plan (lines 264-300): the summaries of the files, then the
  target score; the number of days is an integer, which always converts.
\<close>

definition studyPlan_prompt :: "jsval \<Rightarrow> jsval \<Rightarrow> int \<Rightarrow> js_error + unit" where
  "studyPlan_prompt files targetScore reviewDays =
     and_then (fileSummaries_of plan_summary files) (\<lambda>u. ToString targetScore)"

text \<open>
  The prompt of the test paper (lines 322-362): the summaries of the files, the target
  score, the number of questions, the question type or, when it is \<^verbatim>\<open>all\<close>, the
  text that lists the four types, and the number of questions again.
\<close>

definition testPaper_prompt :: "jsval \<Rightarrow> jsval \<Rightarrow> jsval \<Rightarrow> jsval \<Rightarrow> js_error + unit" where
  "testPaper_prompt files targetScore questionCount questionType =
     and_then (fileSummaries_of paper_summary files) (\<lambda>u.
     and_then (ToString targetScore) (\<lambda>u.
     and_then (ToString questionCount) (\<lambda>u.
     and_then (ToString
        (if questionType = JStr (ascii ''all'')
         then JStr [0x5305, 0x542B, 0x9009, 0x62E9, 0x9898, 0x3001, 0x591A, 0x9009, 0x9898,
                0x3001, 0x5224, 0x65AD, 0x9898, 0x3001, 0x7B80, 0x7B54, 0x9898]
         else questionType)) (\<lambda>u.
     ToString questionCount))))"

text \<open>
  \<^verbatim>\<open>generateStudyPlanWithDeepSeek\<close> (lines 263-318): the prompt is built, the
  client is called, and its answer is interpreted.
\<close>

definition generateStudyPlanWithDeepSeek ::
  "jsval \<Rightarrow> jsval \<Rightarrow> int \<Rightarrow> world \<Rightarrow> (js_error + jsval) \<times> world" where
  "generateStudyPlanWithDeepSeek files targetScore reviewDays w =
     (case studyPlan_prompt files targetScore reviewDays of
        Inl e \<Rightarrow> (Inl e, w)
      | Inr u \<Rightarrow>
          (case callDeepSeekAPI w of
             (Inl e, w') \<Rightarrow> (Inl e, w')
           | (Inr response, w') \<Rightarrow> (extractStructured response, w')))"

text \<open>\<^verbatim>\<open>generateTestPaperWithDeepSeek\<close> (lines 321-379), in the same way.\<close>

definition generateTestPaperWithDeepSeek ::
  "jsval \<Rightarrow> jsval \<Rightarrow> jsval \<Rightarrow> jsval \<Rightarrow> world \<Rightarrow> (js_error + jsval) \<times> world" where
  "generateTestPaperWithDeepSeek files targetScore questionCount questionType w =
     (case testPaper_prompt files targetScore questionCount questionType of
        Inl e \<Rightarrow> (Inl e, w)
      | Inr u \<Rightarrow>
          (case callDeepSeekAPI w of
             (Inl e, w') \<Rightarrow> (Inl e, w')
           | (Inr response, w') \<Rightarrow> (extractStructured response, w')))"

section \<open>The request handlers\<close>

text \<open>
  What a handler sends: \<^verbatim>\<open>res.status(400).json({error})\<close>,
  \<^verbatim>\<open>res.json({success: true, ..., warning})\<close> with its payload and its warning
  when there is one, \<^verbatim>\<open>res.status(500).json({error, details})\<close>; or nothing, when
  an exception leaves the handler.
\<close>

datatype 'a response =
    Json400 jsstring
  | Json200 'a "jsstring option"
  | Json500 jsstring jsstring
  | Unhandled js_error

fun status :: "'a response \<Rightarrow> nat option" where
  "status (Json400 e) = Some 400"
| "status (Json200 payload warning) = Some 200"
| "status (Json500 e d) = Some 500"
| "status (Unhandled e) = None"

text \<open>
  The payload of the two generating handlers: what the model path returned, or what a
  fallback generator built.
\<close>

datatype 'a generated = FromModel jsval | Fallback 'a

text \<open>\<^verbatim>\<open>!files || files.length === 0\<close> (lines 125 and 165).\<close>

definition no_files :: "jsval \<Rightarrow> bool" where
  "no_files files = (falsy files \<or> get_prop files (ascii ''length'') = Inr (JNum 0))"

text \<open>
  \<^verbatim>\<open>POST /api/generate-study-plan\<close> (lines 121-158), on the three values taken
  from the body of the request; an absent one is undefined.
\<close>

definition generateStudyPlan ::
  "jsval \<Rightarrow> jsval \<Rightarrow> int \<Rightarrow> world \<Rightarrow> study_plan generated response \<times> world" where
  "generateStudyPlan files targetScore reviewDays w =
     (if no_files files then (Json400 [0x6CA1, 0x6709, 0x6587, 0x4EF6, 0x5185, 0x5BB9], w)
      else
        (case generateStudyPlanWithDeepSeek files targetScore reviewDays w of
           (Inr studyPlan, w') \<Rightarrow> (Json200 (FromModel studyPlan) None, w')
         | (Inl apiError, w') \<Rightarrow>
             (case generateFallbackStudyPlan files targetScore reviewDays of
                Inr fallbackPlan \<Rightarrow>
                  (Json200 (Fallback fallbackPlan)
                     (Some (ascii ''API'' @ [0x8C03, 0x7528, 0x5931, 0x8D25, 0xFF0C, 0x4F7F,
                        0x7528, 0x5907, 0x7528, 0x65B9, 0x6848, 0x751F, 0x6210, 0x590D, 0x4E60,
                        0x8BA1, 0x5212])), w')
              | Inl error \<Rightarrow>
                  (case generateFallbackStudyPlan (JArr []) (JNum 85) 7 of
                     Inr fallbackPlan \<Rightarrow>
                       (Json200 (Fallback fallbackPlan)
                          (Some [0x751F, 0x6210, 0x5931, 0x8D25, 0xFF0C, 0x4F7F, 0x7528, 0x5907,
                             0x7528, 0x65B9, 0x6848]), w')
                   | Inl e \<Rightarrow> (Unhandled e, w')))))"

text \<open>\<^verbatim>\<open>POST /api/generate-test-paper\<close> (lines 161-198).\<close>

definition generateTestPaper ::
  "jsval \<Rightarrow> jsval \<Rightarrow> jsval \<Rightarrow> jsval \<Rightarrow> world \<Rightarrow> test_paper generated response \<times> world" where
  "generateTestPaper files targetScore questionCount questionType w =
     (if no_files files then (Json400 [0x6CA1, 0x6709, 0x6587, 0x4EF6, 0x5185, 0x5BB9], w)
      else
        (case generateTestPaperWithDeepSeek files targetScore questionCount questionType w of
           (Inr testPaper, w') \<Rightarrow> (Json200 (FromModel testPaper) None, w')
         | (Inl apiError, w') \<Rightarrow>
             (case generateFallbackTestPaper files targetScore questionCount questionType of
                Inr fallbackPaper \<Rightarrow>
                  (Json200 (Fallback fallbackPaper)
                     (Some (ascii ''API'' @ [0x8C03, 0x7528, 0x5931, 0x8D25, 0xFF0C, 0x4F7F,
                        0x7528, 0x5907, 0x7528, 0x65B9, 0x6848, 0x751F, 0x6210, 0x6A21, 0x62DF,
                        0x5377])), w')
              | Inl error \<Rightarrow>
                  (case generateFallbackTestPaper (JArr []) (JNum 85) (JNum 3)
                          (JStr (ascii ''all'')) of
                     Inr fallbackPaper \<Rightarrow>
                       (Json200 (Fallback fallbackPaper)
                          (Some [0x751F, 0x6210, 0x5931, 0x8D25, 0xFF0C, 0x4F7F, 0x7528, 0x5907,
                             0x7528, 0x65B9, 0x6848]), w')
                   | Inl e \<Rightarrow> (Unhandled e, w')))))"

subsection \<open>Analysing uploaded files\<close>

text \<open>
  A file as the upload middleware hands it over, an entry of \<^verbatim>\<open>fileContents\<close>
  (its keys are \<^verbatim>\<open>name\<close>, \<^verbatim>\<open>type\<close> and \<^verbatim>\<open>content\<close>), and an entry of
  the analysis (its keys are \<^verbatim>\<open>name\<close> and \<^verbatim>\<open>analysis\<close>).
\<close>

record upload =
  originalname :: jsstring
  mimetype :: jsstring
  path :: jsstring

record file_content =
  fc_name :: jsstring
  fc_type :: jsstring
  fc_content :: jsstring

record file_summary =
  summary_name :: jsstring
  summary_analysis :: jsval

text \<open>
  The loop of lines 63-87, file \<open>k\<close> first: the content is cut to 5000 code units; a
  read that fails gives a message in its place; removing the temporary file cannot fail
  the loop.
\<close>

fun read_files :: "(nat \<Rightarrow> read_result) \<Rightarrow> nat \<Rightarrow> upload list \<Rightarrow> file_content list" where
  "read_files rd k [] = []"
| "read_files rd k (file # files) =
     \<lparr>fc_name = originalname file,
      fc_type = mimetype file,
      fc_content =
        (case rd k of
           ReadOk content \<Rightarrow> take 5000 content
         | ReadFail m \<Rightarrow>
             [0x65E0, 0x6CD5, 0x8BFB, 0x53D6, 0x6587, 0x4EF6, 0x5185, 0x5BB9] @ ascii '': '' @ m)\<rparr>
     # read_files rd (k + 1) files"

text \<open>
  \<^verbatim>\<open>analyzeFilesWithDeepSeek\<close> (lines 232-260): one request for each file, in
  order; the first one that fails ends the loop with its error.
\<close>

fun analyze_loop ::
  "file_content list \<Rightarrow> file_summary list \<Rightarrow> world \<Rightarrow> (js_error + file_summary list) \<times> world"
  where
  "analyze_loop [] fileSummaries w = (Inr fileSummaries, w)"
| "analyze_loop (file # files) fileSummaries w =
     (case callDeepSeekAPI w of
        (Inl e, w') \<Rightarrow> (Inl e, w')
      | (Inr reply, w') \<Rightarrow>
          analyze_loop files
            (fileSummaries @ [\<lparr>summary_name = fc_name file, summary_analysis = reply\<rparr>]) w')"

definition analyzeFilesWithDeepSeek ::
  "file_content list \<Rightarrow> world \<Rightarrow> (js_error + file_summary list) \<times> world" where
  "analyzeFilesWithDeepSeek files w = analyze_loop files [] w"

record analysis_body =
  files_listed :: "(jsstring \<times> jsstring) list"
  analysis_entries :: "file_summary list"

text \<open>
  \<^verbatim>\<open>POST /api/analyze-files\<close> (lines 54-118), on \<^verbatim>\<open>req.files\<close>, which is
  absent when the request has no upload. Nothing in the outer \<^verbatim>\<open>try\<close> block throws
  past the inner handlers, so the model never reaches the reply with status 500.
\<close>

definition analyzeFiles :: "upload list option \<Rightarrow> world \<Rightarrow> analysis_body response \<times> world" where
  "analyzeFiles req_files w =
     (case req_files of
        None \<Rightarrow> (Json400 [0x672A, 0x4E0A, 0x4F20, 0x6587, 0x4EF6], w)
      | Some [] \<Rightarrow> (Json400 [0x672A, 0x4E0A, 0x4F20, 0x6587, 0x4EF6], w)
      | Some files \<Rightarrow>
          (let fileContents = read_files (disk w) 0 files;
               listed = map (\<lambda>f. (fc_name f, fc_type f)) fileContents
           in case analyzeFilesWithDeepSeek fileContents w of
                (Inr summaries, w') \<Rightarrow>
                  (Json200 \<lparr>files_listed = listed, analysis_entries = summaries\<rparr> None, w')
              | (Inl apiError, w') \<Rightarrow>
                  (Json200
                     \<lparr>files_listed = listed,
                      analysis_entries =
                        map (\<lambda>f. \<lparr>summary_name = fc_name f,
                                  summary_analysis =
                                    JStr ([0x6587, 0x4EF6, 0x5206, 0x6790, 0x5931, 0x8D25] @
                                      ascii '': '' @
                                      (if message apiError = []
                                       then ascii ''API'' @ [0x8C03, 0x7528, 0x9519, 0x8BEF]
                                       else message apiError))\<rparr>) fileContents\<rparr>
                     (Some [0x6587, 0x4EF6, 0x5206, 0x6790, 0x5931, 0x8D25, 0xFF0C, 0x4F7F,
                        0x7528, 0x5907, 0x7528, 0x65B9, 0x6848, 0x751F, 0x6210, 0x6A21, 0x62DF,
                        0x5377]), w')))"

section \<open>Notions of the specification\<close>

text \<open>
  A file of the data model has a name that is a string; a file list is an array of such
  files.
\<close>

definition named :: "jsval \<Rightarrow> bool" where
  "named file = (case get_prop file (ascii ''name'') of Inr (JStr s) \<Rightarrow> True | _ \<Rightarrow> False)"

definition file_list :: "jsval \<Rightarrow> bool" where
  "file_list files = (case files of JArr fs \<Rightarrow> list_all named fs | _ \<Rightarrow> False)"

text \<open>
  A name mentions a keyword, whatever the case of its letters, when one of its substrings
  is the keyword once lower-cased.
\<close>

definition mentions :: "jsstring \<Rightarrow> jsstring \<Rightarrow> bool" where
  "mentions s kw = (\<exists>u. sublist u s \<and> toLowerCase u = kw)"

definition math_named :: "jsval \<Rightarrow> bool" where
  "math_named file =
     (\<exists>s. get_prop file (ascii ''name'') = Inr (JStr s) \<and> (\<exists>kw \<in> set math_keywords. mentions s kw))"


text \<open>
  Three worlds to run the handlers in: one without a credential, one whose service
  answers every request with the same content, and one whose service refuses every
  request.
\<close>

definition offline :: world where
  "offline =
     \<lparr>DEEPSEEK_KEY = None, upstream = (\<lambda>k. HttpFail (ascii ''Network Error'')),
      disk = (\<lambda>k. ReadOk (ascii ''notes'')), requests = 0\<rparr>"

definition answering :: "jsval \<Rightarrow> world" where
  "answering content =
     \<lparr>DEEPSEEK_KEY = Some (ascii ''sk-test''), upstream = (\<lambda>k. HttpOk content),
      disk = (\<lambda>k. ReadOk (ascii ''notes'')), requests = 0\<rparr>"


text \<open>
  The model's output is unusable when no valid JSON can be extracted from it: it is
  not a string, no pattern matches it, or the text a pattern selects does not parse.
\<close>

definition unusable :: "jsval \<Rightarrow> bool" where
  "unusable response =
     (case response of
        JStr s \<Rightarrow> (case json_candidate s of None \<Rightarrow> True | Some t \<Rightarrow> isl (JSON_parse t))
      | _ \<Rightarrow> True)"

section \<open>Sample inputs\<close>

text \<open>
  Files with and without a name, replies of the model, and two uploads, on which the
  properties below are run.
\<close>

definition notes_file :: jsval where
  "notes_file = JObj [(ascii ''name'', JStr (ascii ''notes.txt''))]"

definition math_file :: jsval where
  "math_file = JObj [(ascii ''name'', JStr (ascii ''Math_notes.txt''))]"

definition unnamed_file :: jsval where
  "unnamed_file = JObj [(ascii ''type'', JStr (ascii ''text/plain''))]"

definition object_inner :: jsstring where
  "object_inner = [34] @ ascii ''a'' @ [34] @ ascii '':1''"

definition one_object :: jsstring where
  "one_object = [123] @ object_inner @ [125]"

definition two_objects :: jsstring where
  "two_objects = one_object @ ascii '' and {'' @ [34] @ ascii ''b'' @ [34] @ ascii '':2}''"

definition plan_intro :: jsstring where
  "plan_intro = ascii ''Plan:'' @ [10]"

definition plan_json :: jsstring where
  "plan_json = ascii ''{'' @ [34] @ ascii ''total_days'' @ [34] @ ascii '':2}''"

definition fenced_reply :: jsstring where
  "fenced_reply = plan_intro @ fence_open @ plan_json @ fence_close"

definition chatty_reply :: jsstring where
  "chatty_reply = ascii ''Sure: '' @ one_object @ ascii '' ok''"

definition two_uploads :: "upload list" where
  "two_uploads =
     [\<lparr>originalname = ascii ''a.txt'', mimetype = ascii ''text/plain'',
        path = ascii ''uploads/1.txt''\<rparr>,
      \<lparr>originalname = ascii ''b.md'', mimetype = ascii ''text/markdown'',
        path = ascii ''uploads/2.md''\<rparr>]"

section \<open>Domain classification and the fallback generators\<close>

lemma str_includes_sublist: "str_includes s p \<longleftrightarrow> sublist p s"
proof (induction s)
  case Nil
  then show ?case by simp
next
  case (Cons c cs)
  have "prefix p (c # cs) \<longleftrightarrow> take (length p) (c # cs) = p"
    by (metis append_eq_conv_conj prefix_def append_take_drop_id)
  then show ?case using Cons by (simp add: sublist_Cons_right)
qed

lemma mentions_iff: "mentions s kw \<longleftrightarrow> str_includes (toLowerCase s) kw"
proof
  assume "mentions s kw"
  then obtain u where "sublist u s" "toLowerCase u = kw"
    by (auto simp: mentions_def)
  then show "str_includes (toLowerCase s) kw"
    unfolding str_includes_sublist toLowerCase_def by (auto intro: map_mono_sublist)
next
  assume "str_includes (toLowerCase s) kw"
  then have "sublist kw (map (\<lambda>c. if 65 \<le> c \<and> c \<le> 90 then c + 32 else c) s)"
    by (simp add: str_includes_sublist toLowerCase_def)
  then obtain u where "sublist u s"
      and "kw = map (\<lambda>c. if 65 \<le> c \<and> c \<le> 90 then c + 32 else c) u"
    using sublist_map_rightE by blast
  then show "mentions s kw"
    unfolding mentions_def toLowerCase_def by blast
qed

lemma is_math_file_named:
  assumes "named f"
  shows "is_math_file f = Inr (math_named f)"
proof -
  from assms obtain s where s: "get_prop f (ascii ''name'') = Inr (JStr s)"
    by (auto simp: named_def split: sum.splits jsval.splits)
  then show ?thesis
    by (simp add: is_math_file_def name_toLowerCase_def math_named_def math_keywords_def
        mentions_iff)
qed

lemma some_math_named:
  "list_all named fs \<Longrightarrow> some_math fs = Inr (\<exists>f \<in> set fs. math_named f)"
  by (induction fs) (auto simp: is_math_file_named split: bool.splits)

lemma isMathContent_file_list:
  "file_list (JArr fs) \<Longrightarrow> isMathContent (JArr fs) = Inr (\<exists>f \<in> set fs. math_named f)"
  by (simp add: file_list_def isMathContent_def some_math_named)

lemma file_list_cases: "file_list files \<Longrightarrow> \<exists>fs. files = JArr fs"
  by (cases files) (auto simp: file_list_def)

lemma file_list_notes: "file_list (JArr [notes_file])"
  by code_simp

lemma file_list_math: "file_list (JArr [math_file, notes_file])"
  by code_simp

lemma math_file_math_named: "math_named math_file"
proof -
  have "str_includes (toLowerCase (ascii ''Math_notes.txt'')) (ascii ''math'')"
    by code_simp
  then have "mentions (ascii ''Math_notes.txt'') (ascii ''math'')"
    by (simp only: mentions_iff)
  then show ?thesis
    by (auto simp: math_named_def math_file_def math_keywords_def)
qed

lemma notes_file_not_math_named: "\<not> math_named notes_file"
proof -
  have "\<forall>kw \<in> set math_keywords. \<not> str_includes (toLowerCase (ascii ''notes.txt'')) kw"
    by code_simp
  then show ?thesis
    by (auto simp: math_named_def notes_file_def mentions_iff)
qed

lemma no_files_cases:
  "no_files JUndefined" "no_files JNull" "no_files (JArr fs) \<longleftrightarrow> fs = []"
  by (simp_all add: no_files_def ascii_def)

subsection \<open>The study plan\<close>

lemma dailyPlans_loop_eq:
  "dailyPlans_loop subject n i acc = acc @ map (daily subject n) [i..n]"
proof (induction subject n i acc rule: dailyPlans_loop.induct)
  case (1 subject reviewDays i dailyPlans)
  show ?case
  proof (cases "i \<le> reviewDays")
    case True
    then show ?thesis
      using 1 by (subst dailyPlans_loop.simps) (simp add: upto_rec1)
  next
    case False
    then show ?thesis by (subst dailyPlans_loop.simps) simp
  qed
qed

lemma labels_distinct: "easy \<noteq> medium" "easy \<noteq> hard" "medium \<noteq> hard"
  by (simp_all add: easy_def medium_def hard_def)

lemma fallback_plan_file_list:
  "file_list (JArr fs) \<Longrightarrow>
   generateFallbackStudyPlan (JArr fs) targetScore n =
     Inr \<lparr>plan_title = subject_of (\<exists>f \<in> set fs. math_named f) @
            [0x4E2A, 0x6027, 0x5316, 0x590D, 0x4E60, 0x8BA1, 0x5212],
          total_days = n,
          daily_plans = map (daily (subject_of (\<exists>f \<in> set fs. math_named f)) n) [1..n]\<rparr>"
  by (simp add: generateFallbackStudyPlan_def isMathContent_file_list dailyPlans_loop_eq)

text \<open>
  Claim C2. For every integer \<open>n \<ge> 1\<close> and every file list,
  \<open>generateFallbackStudyPlan\<close> returns a plan with exactly \<open>n\<close> daily plans,
  whose days are numbered 1 to \<open>n\<close> in order; day 1 is easy, day \<open>n\<close> is hard
  when \<open>n > 1\<close>, every other day is medium; and \<open>total_days\<close> is \<open>n\<close>.
\<close>

theorem fallback_plan_days:
  assumes "file_list files" and "1 \<le> n"
  shows "\<exists>plan. generateFallbackStudyPlan files targetScore n = Inr plan \<and>
           total_days plan = n \<and>
           int (length (daily_plans plan)) = n \<and>
           map day (daily_plans plan) = [1..n] \<and>
           (\<forall>p \<in> set (daily_plans plan).
              difficulty p = (if day p = 1 then easy else if day p = n then hard else medium))"
proof -
  from assms(1) obtain fs where fs: "files = JArr fs"
    using file_list_cases by blast
  have days: "map (day \<circ> daily s n) [1..n] = [1..n]" for s
    by (simp add: daily_def comp_def)
  show ?thesis
    using assms fs
    by (auto simp: generateFallbackStudyPlan_def isMathContent_file_list dailyPlans_loop_eq
        days daily_def)
qed

text \<open>
  The plan for three days of review of one file: days 1, 2, 3, of difficulty easy,
  medium, hard.
\<close>

theorem fallback_plan_days_witness:
  "file_list (JArr [notes_file]) \<and> (1::int) \<le> 3 \<and>
   (\<exists>plan. generateFallbackStudyPlan (JArr [notes_file]) (JNum 85) 3 = Inr plan \<and>
      total_days plan = 3 \<and> map day (daily_plans plan) = [1, 2, 3] \<and>
      map difficulty (daily_plans plan) = [easy, medium, hard])"
proof -
  have n: "(1::int) \<le> 3" by simp
  obtain plan where plan: "generateFallbackStudyPlan (JArr [notes_file]) (JNum 85) 3 = Inr plan"
    and total: "total_days plan = 3"
    and days: "map day (daily_plans plan) = [1..3]"
    and diff: "\<forall>p \<in> set (daily_plans plan).
        difficulty p = (if day p = 1 then easy else if day p = 3 then hard else medium)"
    using fallback_plan_days [OF file_list_notes n, of "JNum 85"] by blast
  have upto: "[1..3] = [1, 2, 3::int]" by code_simp
  from days obtain p1 p2 p3 where ps: "daily_plans plan = [p1, p2, p3]"
    and "day p1 = 1" "day p2 = 2" "day p3 = 3"
    unfolding upto by (auto simp: map_eq_Cons_conv)
  with diff have "map difficulty (daily_plans plan) = [easy, medium, hard]"
    by simp
  with plan total days upto file_list_notes n show ?thesis
    by simp
qed

text \<open>
  Claim C10. For every integer \<open>n \<le> 0\<close> and every file list,
  \<open>generateFallbackStudyPlan\<close> returns a plan without daily plans whose
  \<open>total_days\<close> is still \<open>n\<close>; so for a negative \<open>n\<close> the value returned
  does not satisfy \<open>total_days = length daily_plans\<close>.
\<close>

theorem fallback_plan_no_days:
  assumes "file_list files" and "n \<le> 0"
  shows "\<exists>plan. generateFallbackStudyPlan files targetScore n = Inr plan \<and>
           daily_plans plan = [] \<and> total_days plan = n \<and>
           (n < 0 \<longrightarrow> total_days plan \<noteq> int (length (daily_plans plan)))"
proof -
  from assms(1) obtain fs where fs: "files = JArr fs"
    using file_list_cases by blast
  show ?thesis
    using assms fs
    by (auto simp: generateFallbackStudyPlan_def isMathContent_file_list dailyPlans_loop_eq)
qed

text \<open>
  The plan for \<open>- 2\<close> days.
\<close>

theorem fallback_plan_no_days_witness:
  "file_list (JArr [notes_file]) \<and> (- 2::int) \<le> 0 \<and>
   (\<exists>plan. generateFallbackStudyPlan (JArr [notes_file]) (JNum 85) (- 2) = Inr plan \<and>
      daily_plans plan = [] \<and> total_days plan = - 2 \<and>
      total_days plan \<noteq> int (length (daily_plans plan)))"
proof -
  have n: "(- 2::int) \<le> 0" by simp
  show ?thesis
    using fallback_plan_no_days [OF file_list_notes n, of "JNum 85"] file_list_notes by auto
qed

subsection \<open>The test paper\<close>

lemma papers_differ: "math_paper \<noteq> general_paper"
  by (simp add: math_paper_def general_paper_def)

lemma subjects_differ: "subject_of True \<noteq> subject_of False"
  by (simp add: subject_of_def)

lemma math_paper_shape:
  "length (questions math_paper) = 3"
  "total_questions (analysis math_paper) = 3"
  "sum_list (map snd (difficulty_distribution (analysis math_paper))) = 1"
  by (simp_all add: math_paper_def)

lemma general_paper_shape:
  "length (questions general_paper) = 3"
  "total_questions (analysis general_paper) = 3"
  "sum_list (map snd (difficulty_distribution (analysis general_paper))) = 1"
  by (simp_all add: general_paper_def)

lemma fallback_paper_file_list:
  "file_list (JArr fs) \<Longrightarrow>
   generateFallbackTestPaper (JArr fs) targetScore questionCount questionType =
     Inr (if \<exists>f \<in> set fs. math_named f then math_paper else general_paper)"
  by (simp add: generateFallbackTestPaper_def isMathContent_file_list)

lemma fallback_paper_empty:
  "generateFallbackTestPaper (JArr []) targetScore qc qt = Inr general_paper"
  by (simp add: generateFallbackTestPaper_def isMathContent_def)

lemma fallback_paper_cases:
  "generateFallbackTestPaper files ts qc qt = Inr paper \<Longrightarrow>
   paper = math_paper \<or> paper = general_paper"
  by (auto simp: generateFallbackTestPaper_def split: sum.splits if_splits)

lemma math_paper_options:
  "\<forall>q \<in> set (questions math_paper).
     if qtype q = ascii ''essay'' then options q = None
     else (\<exists>os. options q = Some os \<and> os \<noteq> [])"
  by (simp add: math_paper_def math_question1_def math_question2_def math_question3_def
      ascii_def)

lemma general_paper_options:
  "\<forall>q \<in> set (questions general_paper).
     if qtype q = ascii ''essay'' then options q = None
     else (\<exists>os. options q = Some os \<and> os \<noteq> [])"
  by (simp add: general_paper_def general_question1_def general_question2_def
      general_question3_def ascii_def)

text \<open>
  Claim C3 says that \<open>generateFallbackTestPaper\<close> returns a paper for every
  input. On a file whose name is the number 42 it throws a TypeError instead.
\<close>

theorem fallback_paper_throws_on_numeric_name:
  "generateFallbackTestPaper (JArr [JObj [(ascii ''name'', JNum 42)]]) (JNum 85) (JNum 3)
       (JStr (ascii ''all'')) =
     Inl (TypeError (ascii ''file.name.toLowerCase is not a function''))"
  by (simp add: generateFallbackTestPaper_def isMathContent_def is_math_file_def
      name_toLowerCase_def)

text \<open>
  Claim C3, amended. For every file list (an array of files whose names are strings)
  and every target score, question count and question type,
  \<open>generateFallbackTestPaper\<close> returns one of the two fixed papers, the same one
  whatever the three other arguments are; the paper has exactly 3 questions and the
  fractions of its difficulty distribution sum to 1.
\<close>

theorem fallback_paper_three_questions:
  assumes "file_list files"
  shows "\<exists>paper.
           generateFallbackTestPaper files targetScore questionCount questionType = Inr paper \<and>
           generateFallbackTestPaper files targetScore' questionCount' questionType' = Inr paper \<and>
           (paper = math_paper \<or> paper = general_paper) \<and>
           length (questions paper) = 3 \<and>
           sum_list (map snd (difficulty_distribution (analysis paper))) = 1"
proof -
  from assms obtain fs where fs: "files = JArr fs"
    using file_list_cases by blast
  show ?thesis
    using assms unfolding fs
    by (simp add: fallback_paper_file_list math_paper_shape general_paper_shape)
qed

text \<open>
  Ten essay questions are asked for; the paper is the one returned for three questions
  of every type.
\<close>

theorem fallback_paper_three_questions_witness:
  "file_list (JArr [notes_file]) \<and>
   (\<exists>paper. generateFallbackTestPaper (JArr [notes_file]) (JNum 85) (JNum 10)
        (JStr (ascii ''essay'')) = Inr paper \<and>
      generateFallbackTestPaper (JArr [notes_file]) (JNum 60) (JNum 3)
        (JStr (ascii ''all'')) = Inr paper \<and>
      length (questions paper) = 3 \<and>
      sum_list (map snd (difficulty_distribution (analysis paper))) = 1)"
  using fallback_paper_three_questions [OF file_list_notes, of "JNum 85" "JNum 10"
      "JStr (ascii ''essay'')" "JNum 60" "JNum 3" "JStr (ascii ''all'')"] file_list_notes
  by blast

text \<open>
  Claim C4. For every file list, the two fallback generators build the output of the
  mathematics domain if and only if the name of some file mentions, whatever the case of
  its letters, one of the four keywords; otherwise they build the output of the general
  domain. The two outputs differ.
\<close>

theorem domain_classification:
  assumes "file_list (JArr fs)"
  shows "generateFallbackTestPaper (JArr fs) targetScore questionCount questionType =
           Inr (if \<exists>f \<in> set fs. math_named f then math_paper else general_paper) \<and>
         generateFallbackStudyPlan (JArr fs) targetScore n =
           Inr \<lparr>plan_title = subject_of (\<exists>f \<in> set fs. math_named f) @
                  [0x4E2A, 0x6027, 0x5316, 0x590D, 0x4E60, 0x8BA1, 0x5212],
                total_days = n,
                daily_plans = map (daily (subject_of (\<exists>f \<in> set fs. math_named f)) n) [1..n]\<rparr> \<and>
         math_paper \<noteq> general_paper \<and> subject_of True \<noteq> subject_of False"
  using assms
  by (simp only: fallback_paper_file_list fallback_plan_file_list papers_differ subjects_differ
      not_False_eq_True simp_thms)

text \<open>
  A file named \<^verbatim>\<open>Math_notes.txt\<close> selects the mathematics paper; a file named
  \<^verbatim>\<open>notes.txt\<close> alone selects the general paper.
\<close>

theorem domain_classification_witness:
  "file_list (JArr [math_file, notes_file]) \<and>
   generateFallbackTestPaper (JArr [math_file, notes_file]) (JNum 85) (JNum 3)
     (JStr (ascii ''all'')) = Inr math_paper \<and>
   file_list (JArr [notes_file]) \<and>
   generateFallbackTestPaper (JArr [notes_file]) (JNum 85) (JNum 3)
     (JStr (ascii ''all'')) = Inr general_paper"
  using domain_classification [OF file_list_math, of "JNum 85" "JNum 3" "JStr (ascii ''all'')" 7]
    domain_classification [OF file_list_notes, of "JNum 85" "JNum 3" "JStr (ascii ''all'')" 7]
    file_list_math file_list_notes math_file_math_named notes_file_not_math_named
  by simp

text \<open>
  Claim C9 says that every question has an options field that is a list of strings,
  empty for an essay. The essay question of the general paper is written without the
  field: the paper returned for the empty file list has it as its third question.
\<close>

theorem fallback_essay_without_options:
  "generateFallbackTestPaper (JArr []) (JNum 85) (JNum 3) (JStr (ascii ''all'')) =
     Inr general_paper \<and>
   qtype (questions general_paper ! 2) = ascii ''essay'' \<and>
   options (questions general_paper ! 2) = None"
  by (simp add: generateFallbackTestPaper_def isMathContent_def general_paper_def
      general_question3_def)

text \<open>
  Claim C9, amended. In a paper that \<open>generateFallbackTestPaper\<close> returns, a
  question that is not an essay has an options field that is a non-empty list of strings,
  and an essay question has no options field.
\<close>

theorem fallback_paper_options:
  assumes "generateFallbackTestPaper files targetScore questionCount questionType = Inr paper"
  shows "\<forall>q \<in> set (questions paper).
           if qtype q = ascii ''essay'' then options q = None
           else (\<exists>os. options q = Some os \<and> os \<noteq> [])"
  using fallback_paper_cases [OF assms] math_paper_options general_paper_options by blast

text \<open>
  In the general paper, question 3 has no options and question 1 has some.
\<close>

theorem fallback_paper_options_witness:
  "generateFallbackTestPaper (JArr []) (JNum 85) (JNum 3) (JStr (ascii ''all'')) =
     Inr general_paper \<and>
   options general_question3 = None \<and>
   (\<exists>os. options general_question1 = Some os \<and> os \<noteq> [])"
proof -
  have run: "generateFallbackTestPaper (JArr []) (JNum 85) (JNum 3) (JStr (ascii ''all'')) =
      Inr general_paper"
    by (rule fallback_paper_empty)
  have q: "general_question1 \<in> set (questions general_paper)"
    "general_question3 \<in> set (questions general_paper)"
    by (simp_all add: general_paper_def)
  have t: "qtype general_question3 = ascii ''essay''"
    "qtype general_question1 \<noteq> ascii ''essay''"
    by (simp_all add: general_question3_def general_question1_def ascii_def)
  show ?thesis
    using fallback_paper_options [OF run] run q t by metis
qed

subsection \<open>Files without a name\<close>












section \<open>Interpreting the model's output\<close>

lemma take_eq_prefix: "take (length p) s = p \<longleftrightarrow> prefix p s"
  by (metis append_eq_conv_conj prefix_def append_take_drop_id)

lemma split_first_SomeD:
  "split_first p s = Some (b, a) \<Longrightarrow> s = b @ p @ a"
proof (induction s arbitrary: b)
  case Nil
  then show ?case by (simp split: if_splits)
next
  case (Cons c cs)
  show ?case
  proof (cases "take (length p) (c # cs) = p")
    case True
    then have "c # cs = p @ drop (length p) (c # cs)"
      by (metis append_take_drop_id)
    with True Cons.prems show ?thesis by simp
  next
    case False
    with Cons.prems obtain b' where "split_first p cs = Some (b', a)" and "b = c # b'"
      by auto
    with Cons.IH show ?thesis by simp
  qed
qed

lemma split_first_first:
  assumes "\<not> sublist p (b @ butlast p)"
  shows "split_first p (b @ p @ a) = Some (b, a)"
  using assms
proof (induction b)
  case Nil
  then have "p \<noteq> []" by auto
  then obtain c cs where "p @ a = c # cs"
    by (cases p) auto
  moreover have "take (length p) (p @ a) = p" "drop (length p) (p @ a) = a"
    by simp_all
  ultimately show ?case
    by (metis append_Nil split_first.simps(2))
next
  case (Cons c b)
  have "p \<noteq> []" using Cons.prems by auto
  have "\<not> prefix p (c # b @ p @ a)"
  proof
    assume "prefix p (c # b @ p @ a)"
    then have "take (length p) (c # b @ p @ a) = p"
      by (simp add: take_eq_prefix)
    moreover have "c # b @ p @ a = (c # b @ butlast p) @ (last p # a)"
      using \<open>p \<noteq> []\<close> by (metis append.assoc append_Cons append_butlast_last_id append_Nil)
    moreover have "length p \<le> length (c # b @ butlast p)"
      by simp
    ultimately have "take (length p) (c # b @ butlast p) = p"
      by (metis take_append diff_is_0_eq take_0 append_Nil2)
    then have "prefix p (c # b @ butlast p)"
      by (simp add: take_eq_prefix)
    then show False
      using Cons.prems by auto
  qed
  moreover have "\<not> sublist p (b @ butlast p)"
    using Cons.prems by (simp add: sublist_Cons_right)
  ultimately show ?case
    using Cons.IH by (simp add: take_eq_prefix del: take_Suc_Cons)
qed

lemma match_fenced_first:
  assumes "\<not> sublist fence_open (before @ butlast fence_open)"
    and "\<not> sublist fence_close (inner @ butlast fence_close)"
  shows "match_fenced (before @ fence_open @ inner @ fence_close @ after) =
           Some (fence_open @ inner @ fence_close, inner)"
proof -
  have "split_first fence_open (before @ fence_open @ (inner @ fence_close @ after)) =
          Some (before, inner @ fence_close @ after)"
    using assms(1) by (rule split_first_first)
  moreover have "split_first fence_close (inner @ fence_close @ after) = Some (inner, after)"
    using assms(2) by (rule split_first_first)
  ultimately show ?thesis
    by (simp add: match_fenced_def)
qed

lemma match_fenced_SomeD:
  "match_fenced s = Some (whole, inner) \<Longrightarrow>
   \<exists>before after. s = before @ fence_open @ inner @ fence_close @ after"
proof -
  assume "match_fenced s = Some (whole, inner)"
  then obtain before rest after where "split_first fence_open s = Some (before, rest)"
    and "split_first fence_close rest = Some (inner, after)"
    by (auto simp: match_fenced_def split: option.splits)
  then have "s = before @ fence_open @ inner @ fence_close @ after"
    by (auto dest!: split_first_SomeD)
  then show ?thesis by blast
qed

lemma match_braces_outermost:
  assumes "123 \<notin> set before" and "125 \<notin> set after"
  shows "match_braces (before @ [123] @ mid @ [125] @ after) = Some ([123] @ mid @ [125])"
proof -
  have "dropWhile (\<lambda>c. c \<noteq> 123) (before @ [123] @ mid @ [125] @ after) =
          123 # mid @ [125] @ after"
    using assms(1) by (auto simp: dropWhile_append3)
  moreover have "dropWhile (\<lambda>c. c \<noteq> 125) (rev (mid @ [125] @ after)) = 125 # rev mid"
    using assms(2) by (auto simp: dropWhile_append3)
  ultimately show ?thesis
    by (simp add: match_braces_def Let_def)
qed

lemma no_fenced_block:
  "\<not> sublist fence_open s \<Longrightarrow> \<nexists>b i a. s = b @ fence_open @ i @ fence_close @ a"
  by (metis sublist_appendI)

lemma extractStructured_returns: "\<exists>v. extractStructured response = Inr v"
  by (simp add: extractStructured_def split: sum.splits)

lemma extractStructured_fenced:
  assumes "\<not> sublist fence_open (before @ butlast fence_open)"
    and "\<not> sublist fence_close (inner @ butlast fence_close)"
    and "inner \<noteq> []" and "JSON_parse inner = Inr v"
  shows "extractStructured (JStr (before @ fence_open @ inner @ fence_close @ after)) = Inr v"
  using assms
  by (simp add: extractStructured_def try_extract_def json_candidate_def match_fenced_first)

lemma extractStructured_braces:
  assumes "\<nexists>b i a. s = b @ fence_open @ i @ fence_close @ a"
    and "s = before @ [123] @ mid @ [125] @ after"
    and "123 \<notin> set before" and "125 \<notin> set after"
    and "JSON_parse ([123] @ mid @ [125]) = Inr v"
  shows "extractStructured (JStr s) = Inr v"
proof -
  have "match_fenced s = None"
  proof (cases "match_fenced s")
    case (Some m)
    then show ?thesis
      using assms(1) match_fenced_SomeD [of s "fst m" "snd m"] by auto
  qed simp
  moreover have "match_braces s = Some ([123] @ mid @ [125])"
    unfolding assms(2) using assms(3,4) by (rule match_braces_outermost)
  ultimately show ?thesis
    using assms(5) by (simp add: extractStructured_def try_extract_def json_candidate_def)
qed

lemma extractStructured_envelope:
  assumes "\<And>s t. response = JStr s \<Longrightarrow> json_candidate s = Some t \<Longrightarrow> isl (JSON_parse t)"
  shows "extractStructured response = Inr (raw_response response)"
proof (cases "try_extract response")
  case (Inl e)
  then show ?thesis by (simp add: extractStructured_def)
next
  case (Inr v)
  then obtain s where s: "response = JStr s"
    by (cases response) (auto simp: try_extract_def)
  show ?thesis
  proof (cases "json_candidate s")
    case None
    then show ?thesis
      using s by (simp add: extractStructured_def try_extract_def)
  next
    case (Some t)
    then have "isl (JSON_parse t)"
      using assms s by blast
    then show ?thesis
      using s Some Inr by (auto simp: try_extract_def)
  qed
qed

lemma unusable_envelope:
  "unusable response \<Longrightarrow> extractStructured response = Inr (raw_response response)"
  by (rule extractStructured_envelope) (auto simp: unusable_def)

text \<open>
  Claim C5 says that an input containing a bare brace-delimited JSON object gives the
  parsed object. The second pattern is greedy: in a reply with two objects it selects the
  text from the first opening brace to the last closing brace, which is not valid JSON,
  and the result is the envelope, although the reply contains an object that parses.
\<close>

theorem extractStructured_greedy_braces:
  "str_includes two_objects one_object \<and>
   JSON_parse one_object = Inr (JObj [(ascii ''a'', JNum 1)]) \<and>
   extractStructured (JStr two_objects) = Inr (raw_response (JStr two_objects))"
  by code_simp

text \<open>
  Claim C5, amended. The step never throws. When the first opening fence is followed
  by a closing fence and the text between it and the first such closing fence is not empty
  and parses, the result is the value parsed from it. When the input has no fenced block
  and the text from its first opening brace to its last closing brace parses, the result is
  the value parsed from it. When no pattern selects a text, or the text selected does not
  parse, or the input is not a string, the result is the envelope around the input.
\<close>

theorem extractStructured_cases:
  "(\<exists>v. extractStructured response = Inr v) \<and>
   (\<not> sublist fence_open (before @ butlast fence_open) \<and>
    \<not> sublist fence_close (inner @ butlast fence_close) \<and>
    inner \<noteq> [] \<and> JSON_parse inner = Inr v \<longrightarrow>
      extractStructured (JStr (before @ fence_open @ inner @ fence_close @ after)) = Inr v) \<and>
   ((\<nexists>b i a. s = b @ fence_open @ i @ fence_close @ a) \<and>
    s = before' @ [123] @ mid @ [125] @ after' \<and> 123 \<notin> set before' \<and> 125 \<notin> set after' \<and>
    JSON_parse ([123] @ mid @ [125]) = Inr v' \<longrightarrow>
      extractStructured (JStr s) = Inr v') \<and>
   ((\<forall>s t. response = JStr s \<and> json_candidate s = Some t \<longrightarrow> isl (JSON_parse t)) \<longrightarrow>
      extractStructured response = Inr (raw_response response))"
proof (intro conjI impI)
  show "\<exists>v. extractStructured response = Inr v"
    by (rule extractStructured_returns)
next
  assume "\<not> sublist fence_open (before @ butlast fence_open) \<and>
    \<not> sublist fence_close (inner @ butlast fence_close) \<and>
    inner \<noteq> [] \<and> JSON_parse inner = Inr v"
  then show "extractStructured (JStr (before @ fence_open @ inner @ fence_close @ after)) = Inr v"
    by (simp add: extractStructured_fenced)
next
  assume "(\<nexists>b i a. s = b @ fence_open @ i @ fence_close @ a) \<and>
    s = before' @ [123] @ mid @ [125] @ after' \<and> 123 \<notin> set before' \<and> 125 \<notin> set after' \<and>
    JSON_parse ([123] @ mid @ [125]) = Inr v'"
  then show "extractStructured (JStr s) = Inr v'"
    using extractStructured_braces [of s before' mid after' v'] by blast
next
  assume "\<forall>s t. response = JStr s \<and> json_candidate s = Some t \<longrightarrow> isl (JSON_parse t)"
  then show "extractStructured response = Inr (raw_response response)"
    by (intro extractStructured_envelope) blast
qed

text \<open>
  A fenced reply, a reply with one object between words, and the reply with two
  objects.
\<close>

theorem extractStructured_cases_witness:
  "extractStructured (JStr fenced_reply) = Inr (JObj [(ascii ''total_days'', JNum 2)]) \<and>
   extractStructured (JStr chatty_reply) = Inr (JObj [(ascii ''a'', JNum 1)]) \<and>
   extractStructured (JStr two_objects) = Inr (raw_response (JStr two_objects))"
proof -
  have f: "\<not> sublist fence_open (plan_intro @ butlast fence_open) \<and>
      \<not> sublist fence_close (plan_json @ butlast fence_close) \<and>
      plan_json \<noteq> [] \<and> JSON_parse plan_json = Inr (JObj [(ascii ''total_days'', JNum 2)])"
    by code_simp
  have "extractStructured (JStr (plan_intro @ fence_open @ plan_json @ fence_close @ [])) =
      Inr (JObj [(ascii ''total_days'', JNum 2)])"
    using f extractStructured_cases [of _ plan_intro plan_json _ "[]"] by blast
  then have first: "extractStructured (JStr fenced_reply) =
      Inr (JObj [(ascii ''total_days'', JNum 2)])"
    by (simp add: fenced_reply_def)
  have "\<not> sublist fence_open chatty_reply"
    by code_simp
  then have g1: "\<nexists>b i a. chatty_reply = b @ fence_open @ i @ fence_close @ a"
    by (rule no_fenced_block)
  have g2: "chatty_reply = ascii ''Sure: '' @ [123] @ object_inner @ [125] @ ascii '' ok''"
    by (simp add: chatty_reply_def one_object_def)
  have g3: "123 \<notin> set (ascii ''Sure: '') \<and> 125 \<notin> set (ascii '' ok'') \<and>
      JSON_parse ([123] @ object_inner @ [125]) = Inr (JObj [(ascii ''a'', JNum 1)])"
    by code_simp
  have second: "extractStructured (JStr chatty_reply) = Inr (JObj [(ascii ''a'', JNum 1)])"
    using extractStructured_cases [where s = chatty_reply and before' = "ascii ''Sure: ''"
        and mid = object_inner and after' = "ascii '' ok''"
        and v' = "JObj [(ascii ''a'', JNum 1)]"] g1 g2 g3
    by blast
  have h: "json_candidate two_objects = Some two_objects \<and> isl (JSON_parse two_objects)"
    by code_simp
  have "\<forall>s t. JStr two_objects = JStr s \<and> json_candidate s = Some t \<longrightarrow>
      isl (JSON_parse t)"
  proof (intro allI impI)
    fix s t
    assume a: "JStr two_objects = JStr s \<and> json_candidate s = Some t"
    then have "s = two_objects" by simp
    with a h show "isl (JSON_parse t)" by simp
  qed
  then have third: "extractStructured (JStr two_objects) = Inr (raw_response (JStr two_objects))"
    by (rule extractStructured_cases
        [THEN conjunct2, THEN conjunct2, THEN conjunct2, THEN mp])
  from first second third show ?thesis
    by blast
qed

section \<open>The generating handlers\<close>

lemma fallback_plan_empty:
  "\<exists>plan. generateFallbackStudyPlan (JArr []) targetScore n = Inr plan"
  by (simp add: generateFallbackStudyPlan_def isMathContent_def)

lemma study_plan_status:
  "status (fst (generateStudyPlan files targetScore n w)) =
     Some (if no_files files then 400 else 200)"
  using fallback_plan_empty [of "JNum 85" 7]
  by (auto simp: generateStudyPlan_def split: prod.splits sum.splits)

lemma test_paper_status:
  "status (fst (generateTestPaper files targetScore qc qt w)) =
     Some (if no_files files then 400 else 200)"
  by (auto simp: generateTestPaper_def fallback_paper_empty split: prod.splits sum.splits)

lemma study_plan_degrades:
  assumes "\<not> no_files files"
    and "fst (generateStudyPlanWithDeepSeek files targetScore n w) = Inl e"
  shows "\<exists>plan warning.
           fst (generateStudyPlan files targetScore n w) =
             Json200 (Fallback plan) (Some warning) \<and>
           (case generateFallbackStudyPlan files targetScore n of
              Inr p \<Rightarrow> plan = p
            | Inl error \<Rightarrow> generateFallbackStudyPlan (JArr []) (JNum 85) 7 = Inr plan)"
  using assms fallback_plan_empty [of "JNum 85" 7]
  by (auto simp: generateStudyPlan_def split: prod.splits sum.splits)

lemma test_paper_degrades:
  assumes "\<not> no_files files"
    and "fst (generateTestPaperWithDeepSeek files targetScore qc qt w) = Inl e"
  shows "\<exists>paper warning.
           fst (generateTestPaper files targetScore qc qt w) =
             Json200 (Fallback paper) (Some warning) \<and>
           (case generateFallbackTestPaper files targetScore qc qt of
              Inr p \<Rightarrow> paper = p
            | Inl error \<Rightarrow>
                generateFallbackTestPaper (JArr []) (JNum 85) (JNum 3) (JStr (ascii ''all'')) =
                  Inr paper)"
  using assms
  by (auto simp: generateTestPaper_def fallback_paper_empty split: prod.splits sum.splits)

text \<open>
  Claim C7 says that when the client returns unusable output the response is built by
  the fallback generator. When the service answers \<^verbatim>\<open>hello\<close>, both handlers
  deliver the envelope around that answer, taken from the model path, without a warning.
\<close>

theorem unusable_output_not_fallback:
  "unusable (JStr (ascii ''hello'')) \<and>
   fst (generateStudyPlan (JArr [notes_file]) (JNum 85) 7 (answering (JStr (ascii ''hello'')))) =
     Json200 (FromModel (raw_response (JStr (ascii ''hello'')))) None \<and>
   fst (generateTestPaper (JArr [notes_file]) (JNum 85) (JNum 3) (JStr (ascii ''all''))
          (answering (JStr (ascii ''hello'')))) =
     Json200 (FromModel (raw_response (JStr (ascii ''hello'')))) None"
  by code_simp

text \<open>
  Claim C7, amended. When the request carries files, the prompt is built without an
  exception, so that the client is called, and the client returns output from which no
  valid JSON can be extracted, the study-plan handler and the test-paper handler answer
  with status 200, the envelope around that output as the payload, taken from the model
  path, and no warning.
\<close>

theorem unusable_output_is_wrapped:
  "(\<not> no_files files \<and> studyPlan_prompt files targetScore n = Inr () \<and>
    callDeepSeekAPI w = (Inr response, w') \<and> unusable response \<longrightarrow>
      generateStudyPlan files targetScore n w =
        (Json200 (FromModel (raw_response response)) None, w')) \<and>
   (\<not> no_files files \<and>
    testPaper_prompt files targetScore questionCount questionType = Inr () \<and>
    callDeepSeekAPI w = (Inr response, w') \<and> unusable response \<longrightarrow>
      generateTestPaper files targetScore questionCount questionType w =
        (Json200 (FromModel (raw_response response)) None, w'))"
  by (simp add: generateStudyPlan_def generateTestPaper_def generateStudyPlanWithDeepSeek_def
      generateTestPaperWithDeepSeek_def unusable_envelope)

text \<open>
  One named file, a number as the target score, and a service that answers with two
  objects in one reply.
\<close>

theorem unusable_output_is_wrapped_witness:
  "\<not> no_files (JArr [notes_file]) \<and>
   studyPlan_prompt (JArr [notes_file]) (JNum 85) 7 = Inr () \<and>
   testPaper_prompt (JArr [notes_file]) (JNum 85) (JNum 3) (JStr (ascii ''all'')) = Inr () \<and>
   unusable (JStr two_objects) \<and>
   fst (generateStudyPlan (JArr [notes_file]) (JNum 85) 7 (answering (JStr two_objects))) =
     Json200 (FromModel (raw_response (JStr two_objects))) None \<and>
   fst (generateTestPaper (JArr [notes_file]) (JNum 85) (JNum 3) (JStr (ascii ''all''))
          (answering (JStr two_objects))) =
     Json200 (FromModel (raw_response (JStr two_objects))) None"
proof -
  let ?w = "answering (JStr two_objects)"
  have h1: "\<not> no_files (JArr [notes_file])"
    by (simp add: no_files_cases)
  have h2: "studyPlan_prompt (JArr [notes_file]) (JNum 85) 7 = Inr ()"
    and h3: "testPaper_prompt (JArr [notes_file]) (JNum 85) (JNum 3) (JStr (ascii ''all'')) =
      Inr ()"
    by code_simp+
  have h4: "callDeepSeekAPI ?w = (Inr (JStr two_objects), ?w\<lparr>requests := requests ?w + 1\<rparr>)"
    by (simp add: callDeepSeekAPI_def answering_def ascii_def)
  have h5: "unusable (JStr two_objects)"
    by code_simp
  note both = unusable_output_is_wrapped [of "JArr [notes_file]" "JNum 85" 7 ?w
      "JStr two_objects" "?w\<lparr>requests := requests ?w + 1\<rparr>" "JNum 3" "JStr (ascii ''all'')"]
  have "generateStudyPlan (JArr [notes_file]) (JNum 85) 7 ?w =
      (Json200 (FromModel (raw_response (JStr two_objects))) None,
       ?w\<lparr>requests := requests ?w + 1\<rparr>)"
    using both [THEN conjunct1] h1 h2 h4 h5 by blast
  moreover have "generateTestPaper (JArr [notes_file]) (JNum 85) (JNum 3) (JStr (ascii ''all''))
      ?w = (Json200 (FromModel (raw_response (JStr two_objects))) None,
       ?w\<lparr>requests := requests ?w + 1\<rparr>)"
    using both [THEN conjunct2] h1 h3 h4 h5 by blast
  ultimately show ?thesis
    using h1 h2 h3 h5 by simp
qed

text \<open>
  When a value that goes into the prompt cannot be converted to a text (an analysis
  or a target score that is an object with a property \<^verbatim>\<open>toString\<close>), the
  exception is raised before the client is called, and the handlers answer with the
  fallback and a warning, whatever the service would have answered.
\<close>

lemma unconvertible_analysis_takes_fallback:
  "file_list (JArr [JObj [(ascii ''name'', JStr (ascii ''notes.txt'')),
      (ascii ''analysis'', JObj [(ascii ''toString'', JNum 1)])]]) \<and>
   (case fst (generateStudyPlan
        (JArr [JObj [(ascii ''name'', JStr (ascii ''notes.txt'')),
           (ascii ''analysis'', JObj [(ascii ''toString'', JNum 1)])]])
        (JNum 85) 7 (answering (JStr (ascii ''hello'')))) of
      Json200 (Fallback plan) (Some warning) \<Rightarrow> True | _ \<Rightarrow> False) \<and>
   (case fst (generateTestPaper (JArr [notes_file]) (JObj [(ascii ''toString'', JNum 1)])
        (JNum 3) (JStr (ascii ''all'')) (answering (JStr (ascii ''hello'')))) of
      Json200 (Fallback paper) (Some warning) \<Rightarrow> True | _ \<Rightarrow> False)"
  by code_simp

text \<open>
  Claim C1. The two generating handlers answer with status 400 exactly when the
  files are missing (absent, or an empty list), and with status 200 otherwise. When the
  attempt with the model throws (the client fails, or an exception is raised before the
  client is called), the payload is a fallback plan or paper and a warning is set: the one built
  from the arguments of the request, or, when building that one throws, the one built from
  the empty file list with the default parameters 85 and 7, or 85, 3 and
  \<^verbatim>\<open>all\<close>.
\<close>

theorem handlers_degrade_to_fallback:
  "status (fst (generateStudyPlan files targetScore n w)) =
     Some (if no_files files then 400 else 200) \<and>
   status (fst (generateTestPaper files targetScore questionCount questionType w)) =
     Some (if no_files files then 400 else 200) \<and>
   no_files JUndefined \<and> (no_files (JArr fs) \<longleftrightarrow> fs = []) \<and>
   (\<not> no_files files \<and> fst (generateStudyPlanWithDeepSeek files targetScore n w) = Inl e \<longrightarrow>
      (\<exists>plan warning.
         fst (generateStudyPlan files targetScore n w) =
           Json200 (Fallback plan) (Some warning) \<and>
         (case generateFallbackStudyPlan files targetScore n of
            Inr p \<Rightarrow> plan = p
          | Inl error \<Rightarrow> generateFallbackStudyPlan (JArr []) (JNum 85) 7 = Inr plan))) \<and>
   (\<not> no_files files \<and>
    fst (generateTestPaperWithDeepSeek files targetScore questionCount questionType w) =
      Inl e' \<longrightarrow>
      (\<exists>paper warning.
         fst (generateTestPaper files targetScore questionCount questionType w) =
           Json200 (Fallback paper) (Some warning) \<and>
         (case generateFallbackTestPaper files targetScore questionCount questionType of
            Inr p \<Rightarrow> paper = p
          | Inl error \<Rightarrow>
              generateFallbackTestPaper (JArr []) (JNum 85) (JNum 3) (JStr (ascii ''all'')) =
                Inr paper)))"
  using study_plan_degrades [of files targetScore n w e]
    test_paper_degrades [of files targetScore questionCount questionType w e']
  by (simp only: study_plan_status test_paper_status no_files_cases) blast

text \<open>
  Without a credential: a request with a mathematics file gets the mathematics paper
  with a warning; a request whose file has no name gets the plan built from the default
  parameters.
\<close>

theorem handlers_degrade_to_fallback_witness:
  "\<not> no_files (JArr [math_file]) \<and>
   fst (generateTestPaperWithDeepSeek (JArr [math_file]) (JNum 85) (JNum 5)
          (JStr (ascii ''all'')) offline) =
     Inl (Error (ascii ''DeepSeek API'' @ [0x5BC6, 0x94A5, 0x672A, 0x914D, 0x7F6E])) \<and>
   (\<exists>warning.
      fst (generateTestPaper (JArr [math_file]) (JNum 85) (JNum 5) (JStr (ascii ''all''))
             offline) = Json200 (Fallback math_paper) (Some warning)) \<and>
   \<not> no_files (JArr [unnamed_file]) \<and>
   fst (generateStudyPlanWithDeepSeek (JArr [unnamed_file]) (JNum 85) 3 offline) =
     Inl (Error (ascii ''DeepSeek API'' @ [0x5BC6, 0x94A5, 0x672A, 0x914D, 0x7F6E])) \<and>
   (\<exists>plan warning.
      fst (generateStudyPlan (JArr [unnamed_file]) (JNum 85) 3 offline) =
        Json200 (Fallback plan) (Some warning) \<and>
      generateFallbackStudyPlan (JArr []) (JNum 85) 7 = Inr plan)"
proof -
  let ?key = "Error (ascii ''DeepSeek API'' @ [0x5BC6, 0x94A5, 0x672A, 0x914D, 0x7F6E])"
  have a1: "\<not> no_files (JArr [math_file])" and b1: "\<not> no_files (JArr [unnamed_file])"
    by (simp_all add: no_files_cases)
  have a2: "fst (generateTestPaperWithDeepSeek (JArr [math_file]) (JNum 85) (JNum 5)
                   (JStr (ascii ''all'')) offline) = Inl ?key"
    by code_simp
  have a3: "generateFallbackTestPaper (JArr [math_file]) (JNum 85) (JNum 5)
              (JStr (ascii ''all'')) = Inr math_paper"
    using fallback_paper_file_list [of "[math_file]"] math_file_math_named
    by (simp add: file_list_def named_def math_file_def)
  have b2: "fst (generateStudyPlanWithDeepSeek (JArr [unnamed_file]) (JNum 85) 3 offline) =
              Inl ?key"
    by code_simp
  have b3: "isl (generateFallbackStudyPlan (JArr [unnamed_file]) (JNum 85) 3)"
    by code_simp
  from b3 obtain err where b4: "generateFallbackStudyPlan (JArr [unnamed_file]) (JNum 85) 3 = Inl err"
    by (cases "generateFallbackStudyPlan (JArr [unnamed_file]) (JNum 85) 3") auto
  note inst = handlers_degrade_to_fallback
    [of "JArr [math_file]" "JNum 85" 3 offline "JNum 5" "JStr (ascii ''all'')" "[]" ?key ?key]
  note inst' = handlers_degrade_to_fallback
    [of "JArr [unnamed_file]" "JNum 85" 3 offline "JNum 5" "JStr (ascii ''all'')" "[]" ?key ?key]
  have "\<exists>warning.
      fst (generateTestPaper (JArr [math_file]) (JNum 85) (JNum 5) (JStr (ascii ''all''))
             offline) = Json200 (Fallback math_paper) (Some warning)"
    using inst a1 a2 a3 by auto
  moreover have "\<exists>plan warning.
      fst (generateStudyPlan (JArr [unnamed_file]) (JNum 85) 3 offline) =
        Json200 (Fallback plan) (Some warning) \<and>
      generateFallbackStudyPlan (JArr []) (JNum 85) 7 = Inr plan"
    using inst' b1 b2 b4 by auto
  ultimately show ?thesis
    using a1 a2 b1 b2 by blast
qed

section \<open>Analysing uploaded files\<close>

lemma read_files_names: "map fc_name (read_files rd k files) = map originalname files"
  by (induction files arbitrary: k) auto

lemma read_files_length: "length (read_files rd k files) = length files"
  by (induction files arbitrary: k) auto

lemma analyze_loop_names:
  "analyze_loop fs acc w = (Inr r, w') \<Longrightarrow>
   map summary_name r = map summary_name acc @ map fc_name fs"
proof (induction fs arbitrary: acc w)
  case Nil
  then show ?case by simp
next
  case (Cons f fs)
  then show ?case
    by (auto split: prod.splits sum.splits)
qed

lemma analyzeFiles_success:
  assumes "files \<noteq> []"
    and "analyzeFilesWithDeepSeek (read_files (disk w) 0 files) w = (Inr summaries, w')"
  shows "analyzeFiles (Some files) w =
           (Json200 \<lparr>files_listed = map (\<lambda>f. (fc_name f, fc_type f)) (read_files (disk w) 0 files),
                    analysis_entries = summaries\<rparr> None, w')"
  using assms by (cases files) (simp_all add: analyzeFiles_def Let_def del: read_files.simps)

lemma analyzeFiles_failure:
  assumes "files \<noteq> []"
    and "analyzeFilesWithDeepSeek (read_files (disk w) 0 files) w = (Inl apiError, w')"
  shows "\<exists>listed warning.
           analyzeFiles (Some files) w =
             (Json200 \<lparr>files_listed = listed,
                analysis_entries =
                  map (\<lambda>f. \<lparr>summary_name = fc_name f,
                            summary_analysis =
                              JStr ([0x6587, 0x4EF6, 0x5206, 0x6790, 0x5931, 0x8D25] @
                                ascii '': '' @
                                (if message apiError = []
                                 then ascii ''API'' @ [0x8C03, 0x7528, 0x9519, 0x8BEF]
                                 else message apiError))\<rparr>)
                    (read_files (disk w) 0 files)\<rparr> (Some warning), w')"
  using assms by (cases files) (simp_all add: analyzeFiles_def Let_def del: read_files.simps)

text \<open>
  Claim C8. For every non-empty list of uploaded files the handler answers with
  status 200, and the analysis has exactly one entry for each file, in the order of the
  files: the entries the client returned when every request succeeds, without a warning;
  and when a request fails, for every file an entry with a failure text that carries the
  message of the error, together with a warning.
\<close>

theorem analyzeFiles_one_entry_per_file:
  assumes "files \<noteq> []"
  shows "\<exists>body warning.
           fst (analyzeFiles (Some files) w) = Json200 body warning \<and>
           map summary_name (analysis_entries body) = map originalname files \<and>
           length (analysis_entries body) = length files \<and>
           (case fst (analyzeFilesWithDeepSeek (read_files (disk w) 0 files) w) of
              Inr summaries \<Rightarrow> warning = None \<and> analysis_entries body = summaries
            | Inl apiError \<Rightarrow>
                warning \<noteq> None \<and>
                (\<forall>entry \<in> set (analysis_entries body).
                   summary_analysis entry =
                     JStr ([0x6587, 0x4EF6, 0x5206, 0x6790, 0x5931, 0x8D25] @ ascii '': '' @
                       (if message apiError = []
                        then ascii ''API'' @ [0x8C03, 0x7528, 0x9519, 0x8BEF]
                        else message apiError))))"
proof -
  obtain r w' where run: "analyzeFilesWithDeepSeek (read_files (disk w) 0 files) w = (r, w')"
    by (cases "analyzeFilesWithDeepSeek (read_files (disk w) 0 files) w") auto
  show ?thesis
  proof (cases r)
    case (Inl apiError)
    with run analyzeFiles_failure [OF assms, of w apiError w']
    show ?thesis
      by (auto simp: comp_def read_files_names read_files_length)
  next
    case (Inr summaries)
    have "map summary_name summaries = map fc_name (read_files (disk w) 0 files)"
      using run Inr analyze_loop_names [of "read_files (disk w) 0 files" "[]" w summaries w']
      by (simp add: analyzeFilesWithDeepSeek_def)
    then have names: "map summary_name summaries = map originalname files"
      by (simp add: read_files_names)
    then have "length summaries = length files"
      by (metis length_map)
    with run Inr names analyzeFiles_success [OF assms, of w summaries w']
    show ?thesis
      by simp
  qed
qed

text \<open>
  Two uploads in a world without a credential: two entries, named after the two
  files, and a warning.
\<close>

theorem analyzeFiles_one_entry_per_file_witness:
  "two_uploads \<noteq> [] \<and>
   (\<exists>body warning.
      fst (analyzeFiles (Some two_uploads) offline) = Json200 body (Some warning) \<and>
      map summary_name (analysis_entries body) = [ascii ''a.txt'', ascii ''b.md''] \<and>
      length (analysis_entries body) = 2)"
proof -
  have h: "two_uploads \<noteq> []"
    by (simp add: two_uploads_def)
  have "isl (fst (analyzeFilesWithDeepSeek (read_files (disk offline) 0 two_uploads) offline))"
    by (simp add: analyzeFilesWithDeepSeek_def two_uploads_def callDeepSeekAPI_def offline_def)
  then obtain err where
    err: "fst (analyzeFilesWithDeepSeek (read_files (disk offline) 0 two_uploads) offline) =
      Inl err"
    by (auto simp: isl_def)
  have names: "map originalname two_uploads = [ascii ''a.txt'', ascii ''b.md'']"
    and len: "length two_uploads = 2"
    by (simp_all add: two_uploads_def)
  obtain body warning where
    "fst (analyzeFiles (Some two_uploads) offline) = Json200 body warning"
    "map summary_name (analysis_entries body) = map originalname two_uploads"
    "length (analysis_entries body) = length two_uploads"
    "warning \<noteq> None"
    using analyzeFiles_one_entry_per_file [OF h, of offline] unfolding err by auto
  then show ?thesis
    using h names len by auto
qed

end
